theory Spec2Isabelle
  imports Complex_Main
begin

section \<open>Colours, rectangles and surfaces\<close>

text \<open>
  The colour wheel of \<^verbatim>\<open>libs/colorwheel.py\<close>. A colour is the tuple \<^verbatim>\<open>(r, g, b)\<close>
  of Python integers that the code hands to \<^verbatim>\<open>set_at\<close> and stores in the gadget's
  \<^verbatim>\<open>value\<close>; a rectangle is the 4-tuple \<^verbatim>\<open>(x, y, w, h)\<close>.
\<close>

type_synonym color = "int \<times> int \<times> int"

type_synonym rect = "int \<times> int \<times> int \<times> int"

datatype error = ZeroDivisionError | PygameError

text \<open>
  A \<^verbatim>\<open>pygame.Surface\<close>: its size, its pixels, and its colorkey (the one colour that
  \<^verbatim>\<open>blit\<close> skips, when set). A new surface is black and has no colorkey; the surfaces
  of this module are made by \<^verbatim>\<open>pygame.Surface(size).convert()\<close>, without per-pixel alpha.
\<close>

record surface =
  width :: int
  height :: int
  get_at :: "int \<times> int \<Rightarrow> color"
  colorkey :: "color option"

definition inside :: "surface \<Rightarrow> int \<times> int \<Rightarrow> bool" where
  "inside s p \<longleftrightarrow> 0 \<le> fst p \<and> fst p < width s \<and> 0 \<le> snd p \<and> snd p < height s"

definition Surface :: "int \<times> int \<Rightarrow> surface" where
  "Surface sz =
     \<lparr>width = fst sz, height = snd sz, get_at = (\<lambda>p. (0, 0, 0)), colorkey = None\<rparr>"

text \<open>\<^verbatim>\<open>Surface.set_at\<close> writes one pixel; a position outside the surface is left alone.\<close>

definition set_at :: "surface \<Rightarrow> int \<times> int \<Rightarrow> color \<Rightarrow> surface" where
  "set_at s p c = (if inside s p then s\<lparr>get_at := (get_at s)(p := c)\<rparr> else s)"

text \<open>\<^verbatim>\<open>Surface.fill(color, rect)\<close> paints the part of the rectangle that is on the surface.\<close>

definition fill :: "surface \<Rightarrow> color \<Rightarrow> rect \<Rightarrow> surface" where
  "fill s c r =
     (case r of (x, y, w, h) \<Rightarrow>
        s\<lparr>get_at := (\<lambda>p. if inside s p \<and> x \<le> fst p \<and> fst p < x + w
                                 \<and> y \<le> snd p \<and> snd p < y + h
                         then c else get_at s p)\<rparr>)"

text \<open>
  \<^verbatim>\<open>Surface.get_rect(center=c)\<close>: the rectangle of the surface's size whose centre is
  \<^verbatim>\<open>c\<close> (pygame halves the size by a shift).
\<close>

definition get_rect :: "surface \<Rightarrow> int \<times> int \<Rightarrow> rect" where
  "get_rect s center =
     (fst center - width s div 2, snd center - height s div 2, width s, height s)"

text \<open>
  \<^verbatim>\<open>dst.blit(src, dest)\<close> copies \<^verbatim>\<open>src\<close> to \<^verbatim>\<open>dst\<close> with its top left corner at the
  top left corner of \<^verbatim>\<open>dest\<close>. Every pixel of \<^verbatim>\<open>src\<close> that lands on \<^verbatim>\<open>dst\<close> is copied,
  except the pixels whose colour is the colorkey of \<^verbatim>\<open>src\<close>.
\<close>

definition blit :: "surface \<Rightarrow> surface \<Rightarrow> rect \<Rightarrow> surface" where
  "blit dst src dest =
     (case dest of (x, y, w, h) \<Rightarrow>
        dst\<lparr>get_at := (\<lambda>p. let q = (fst p - x, snd p - y) in
                         if inside dst p \<and> inside src q \<and> colorkey src \<noteq> Some (get_at src q)
                         then get_at src q else get_at dst p)\<rparr>)"

section \<open>The floating-point library\<close>

text \<open>
  The wheel computes with Python floats through \<^verbatim>\<open>math.hypot\<close>, \<^verbatim>\<open>math.atan2\<close>,
  \<^verbatim>\<open>math.pi\<close>, the float operators \<^verbatim>\<open>%\<close>, \<^verbatim>\<open>/\<close>, \<^verbatim>\<open>*\<close> and \<^verbatim>\<open>colorsys.hsv_to_rgb\<close>.
  None of them is code of this module, and each of them rounds. They are the fields of
  a record that every function of the model takes as its first argument: a float is the
  real number it stands for, and what an operation returns is up to the library. The
  comparisons \<^verbatim>\<open>dist > radius\<close> and \<^verbatim>\<open>min(1.0, ...)\<close> and the truncation \<^verbatim>\<open>int(...)\<close>
  are exact in Python and are exact here.
\<close>

record floatlib =
  hypot :: "int \<Rightarrow> int \<Rightarrow> real"
  atan2 :: "int \<Rightarrow> int \<Rightarrow> real"
  math_pi :: real
  fmod :: "real \<Rightarrow> real \<Rightarrow> real"
  fdiv :: "real \<Rightarrow> real \<Rightarrow> real"
  fmul :: "real \<Rightarrow> real \<Rightarrow> real"
  hsv_to_rgb :: "real \<Rightarrow> real \<Rightarrow> real \<Rightarrow> real \<times> real \<times> real"

text \<open>Python's \<^verbatim>\<open>int(x)\<close> of a float truncates towards zero.\<close>

definition py_int :: "real \<Rightarrow> int" where
  "py_int x = (if 0 \<le> x then \<lfloor>x\<rfloor> else \<lceil>x\<rceil>)"

text \<open>
  One library, in exact arithmetic: a sample instance on which the theorems that hold
  for every library are run. It is not Python's: doubles round, and a colour of the
  code can differ from the exact one in a last digit. \<^verbatim>\<open>colorsys.hsv_to_rgb\<close> is the
  standard library's function, line by line; its last test \<^verbatim>\<open>i == 5\<close> is the final
  \<^verbatim>\<open>else\<close>, since \<^verbatim>\<open>i % 6\<close> has no other value left.
\<close>

definition exact_atan2 :: "real \<Rightarrow> real \<Rightarrow> real" where
  "exact_atan2 y x =
     (if 0 < x then arctan (y / x)
      else if x < 0 \<and> 0 \<le> y then arctan (y / x) + pi
      else if x < 0 then arctan (y / x) - pi
      else if 0 < y then pi / 2
      else if y < 0 then - (pi / 2)
      else 0)"

definition exact_fmod :: "real \<Rightarrow> real \<Rightarrow> real" where
  "exact_fmod x y = x - y * of_int \<lfloor>x / y\<rfloor>"

definition exact_hsv_to_rgb :: "real \<Rightarrow> real \<Rightarrow> real \<Rightarrow> real \<times> real \<times> real" where
  "exact_hsv_to_rgb h s v =
     (if s = 0 then (v, v, v)
      else
        let i = py_int (h * 6);
            f = h * 6 - of_int i;
            p = v * (1 - s);
            q = v * (1 - s * f);
            t = v * (1 - s * (1 - f));
            i = i mod 6
        in if i = 0 then (v, t, p)
           else if i = 1 then (q, v, p)
           else if i = 2 then (p, v, t)
           else if i = 3 then (p, q, v)
           else if i = 4 then (t, p, v)
           else (v, p, q))"

definition exact :: floatlib where
  "exact =
     \<lparr>hypot = (\<lambda>dx dy. sqrt (of_int (dx * dx + dy * dy))),
      atan2 = (\<lambda>y x. exact_atan2 (of_int y) (of_int x)),
      math_pi = pi,
      fmod = exact_fmod,
      fdiv = (\<lambda>x y. x / y),
      fmul = (\<lambda>x y. x * y),
      hsv_to_rgb = exact_hsv_to_rgb\<rparr>"

section \<open>The wheel renderer\<close>

text \<open>
  The body of the two loops of \<^verbatim>\<open>_generate_wheel_surface\<close>, for one pixel. The loops
  run only when the diameter is positive, so the division by \<^verbatim>\<open>radius\<close> never
  divides by zero there.
\<close>

definition render_pixel :: "floatlib \<Rightarrow> int \<Rightarrow> int \<Rightarrow> int \<Rightarrow> surface \<Rightarrow> surface" where
  "render_pixel M radius y x surf =
     (let centre = (radius, radius);
          dx = x - fst centre;
          dy = y - snd centre;
          dist = hypot M dx dy
      in if dist > of_int radius then set_at surf (x, y) (0, 0, 0)
         else
           let hue = fdiv M (fmod M (atan2 M (- dy) dx) (fmul M 2 (math_pi M)))
                            (fmul M 2 (math_pi M));
               sat = min 1 (fdiv M dist (of_int radius))
           in case hsv_to_rgb M hue sat 1 of (r, g, b) \<Rightarrow>
                set_at surf (x, y)
                  (py_int (fmul M r 255), py_int (fmul M g 255), py_int (fmul M b 255)))"

text \<open>\<^verbatim>\<open>range(n)\<close> over Python integers.\<close>

definition range :: "int \<Rightarrow> int list" where
  "range n = [0..n - 1]"

text \<open>
  \<^verbatim>\<open>_generate_wheel_surface(radius)\<close>. pygame refuses a surface of negative size with
  \<^verbatim>\<open>pygame.error\<close>; otherwise the rows are rendered from top to bottom, each from left
  to right.
\<close>

definition generate_wheel_surface :: "floatlib \<Rightarrow> int \<Rightarrow> error + surface" where
  "generate_wheel_surface M radius =
     (let diameter = radius * 2
      in if diameter < 0 then Inl PygameError
         else Inr (fold (\<lambda>y surf. fold (render_pixel M radius y) (range diameter) surf)
                        (range diameter) (Surface (diameter, diameter))))"

text \<open>
  \<^verbatim>\<open>_WHEEL_CACHE\<close> is a module-level dictionary from radius to surface, and
  \<^verbatim>\<open>_get_wheel_surface\<close> is the only code that touches it. The dictionary is passed in
  and returned.
\<close>

type_synonym wheel_cache = "int \<rightharpoonup> surface"

definition get_wheel_surface ::
  "floatlib \<Rightarrow> wheel_cache \<Rightarrow> int \<Rightarrow> error + surface \<times> wheel_cache" where
  "get_wheel_surface M cache radius =
     (case cache radius of
        Some surf \<Rightarrow> Inr (surf, cache)
      | None \<Rightarrow>
          (case generate_wheel_surface M radius of
             Inl e \<Rightarrow> Inl e
           | Inr surf \<Rightarrow> Inr (surf, cache(radius \<mapsto> surf))))"

text \<open>
  The colour that the specification gives a point at displacement \<^verbatim>\<open>(dx, dy)\<close> from the
  centre of a wheel: hue = (atan2(-dy, dx) mod 2\<pi>) / 2\<pi>, saturation = min(1, dist / radius),
  value = 1, converted from HSV to RGB and scaled to 8-bit channels.
\<close>

definition spec_color :: "floatlib \<Rightarrow> int \<Rightarrow> int \<Rightarrow> int \<Rightarrow> color" where
  "spec_color M radius dx dy =
     (let two_pi = fmul M 2 (math_pi M);
          angle = fmod M (atan2 M (- dy) dx) two_pi;
          radial_fraction = min 1 (fdiv M (hypot M dx dy) (of_int radius))
      in case hsv_to_rgb M (fdiv M angle two_pi) radial_fraction 1 of
           (r, g, b) \<Rightarrow> (py_int (fmul M r 255), py_int (fmul M g 255), py_int (fmul M b 255)))"

text \<open>
  What the specification asks of the pixel \<^verbatim>\<open>p\<close> of a wheel buffer: the colour of its
  displacement from the centre \<^verbatim>\<open>(radius, radius)\<close> when the distance is at most the
  radius, and the out-of-wheel mark otherwise, for which the code writes \<^verbatim>\<open>(0, 0, 0)\<close>.
\<close>

definition wheel_pixel :: "floatlib \<Rightarrow> int \<Rightarrow> int \<times> int \<Rightarrow> color" where
  "wheel_pixel M rad p =
     (if hypot M (fst p - rad) (snd p - rad) > of_int rad then (0, 0, 0)
      else spec_color M rad (fst p - rad) (snd p - rad))"

text \<open>The specification's Color: three channel intensities, each from 0 to 255.\<close>

definition is_8bit :: "color \<Rightarrow> bool" where
  "is_8bit c = (case c of (r, g, b) \<Rightarrow> 0 \<le> r \<and> r \<le> 255 \<and> 0 \<le> g \<and> g \<le> 255 \<and> 0 \<le> b \<and> b \<le> 255)"

text \<open>
  What the colours of the wheel need of the float library, and what IEEE doubles with
  CPython's \<^verbatim>\<open>math\<close> and \<^verbatim>\<open>colorsys\<close> give: \<^verbatim>\<open>hypot\<close> is not negative and \<^verbatim>\<open>2 * math.pi\<close>
  is positive; \<^verbatim>\<open>x % y\<close> with a positive \<^verbatim>\<open>y\<close> lies between 0 and \<^verbatim>\<open>y\<close> (rounding can
  reach \<^verbatim>\<open>y\<close>); a quotient of a non-negative number by a positive one is not negative,
  and is at most 1 when the dividend is at most the divisor; \<^verbatim>\<open>hsv_to_rgb(h, s, 1.0)\<close>
  with \<^verbatim>\<open>h\<close> and \<^verbatim>\<open>s\<close> in [0, 1] has its three channels in [0, 1]; and a channel in
  [0, 1] times 255 lies in [0, 255]. Rounding to the nearest double keeps each of these
  bounds, since 0, 1 and 255 are doubles.
\<close>

definition range_contract :: "floatlib \<Rightarrow> bool" where
  "range_contract M \<longleftrightarrow>
     (\<forall>dx dy. 0 \<le> hypot M dx dy)
     \<and> 0 < fmul M 2 (math_pi M)
     \<and> (\<forall>x y. 0 < y \<longrightarrow> 0 \<le> fmod M x y \<and> fmod M x y \<le> y)
     \<and> (\<forall>x y. 0 \<le> x \<and> 0 < y \<longrightarrow> 0 \<le> fdiv M x y \<and> (x \<le> y \<longrightarrow> fdiv M x y \<le> 1))
     \<and> (\<forall>h s. 0 \<le> h \<and> h \<le> 1 \<and> 0 \<le> s \<and> s \<le> 1 \<longrightarrow>
            (case hsv_to_rgb M h s 1 of (r, g, b) \<Rightarrow>
               0 \<le> r \<and> r \<le> 1 \<and> 0 \<le> g \<and> g \<le> 1 \<and> 0 \<le> b \<and> b \<le> 1))
     \<and> (\<forall>c. 0 \<le> c \<and> c \<le> 1 \<longrightarrow> 0 \<le> fmul M c 255 \<and> fmul M c 255 \<le> 255)"

section \<open>The wheel gadget\<close>

text \<open>
  The pygame events that the gadget tells apart, with the mouse button of a button
  event.
\<close>

datatype event_type = MOUSEBUTTONDOWN | MOUSEBUTTONUP | OTHER_EVENT

record event =
  etype :: event_type
  button :: int

text \<open>
  A \<^verbatim>\<open>GadgetEvent(type, event, gadget)\<close>. The requestor of \<^verbatim>\<open>colorwheel_req\<close> holds
  three gadgets, in this order: the wheel, OK and Cancel.
\<close>

datatype gadget_event_type = TYPE_GADGETUP | TYPE_OTHER

datatype gadget_ref = Wheel_gadget | Ok_g | Cancel_g | Other_gadget

record gadget_event =
  ge_type :: gadget_event_type
  ge_event :: event
  ge_gadget :: gadget_ref

definition GadgetEvent :: "gadget_event_type \<Rightarrow> event \<Rightarrow> gadget_ref \<Rightarrow> gadget_event" where
  "GadgetEvent t e g = \<lparr>ge_type = t, ge_event = e, ge_gadget = g\<rparr>"

text \<open>
  The fields of a \<^verbatim>\<open>ColorWheelGadget\<close>. \<^verbatim>\<open>gvalue\<close> is the attribute \<^verbatim>\<open>value\<close>:
  \<^verbatim>\<open>None\<close> or an RGB tuple.
\<close>

record gadget =
  rect :: rect
  radius :: int
  wheel_surf :: surface
  need_redraw :: bool
  visible :: bool
  offsetx :: int
  offsety :: int
  screenrect :: rect
  gvalue :: "color option"

text \<open>
  Modelled from the spec: \<^verbatim>\<open>Gadget.__init__\<close> of \<^verbatim>\<open>libs/gadget.py\<close>, which is not among
  the sources. The selected value is \<^verbatim>\<open>None\<close> until the user clicks inside the circle
  (or the session seeds it); before the first \<^verbatim>\<open>draw\<close> the gadget is not visible and
  sits at its own rectangle, without offset. A record is built whole, so the radius and
  the surface of the subclass are passed along; every field set here but the value is
  written again by the subclass or by the first \<^verbatim>\<open>draw\<close>.
\<close>

definition Gadget_init :: "rect \<Rightarrow> int \<Rightarrow> surface \<Rightarrow> gadget" where
  "Gadget_init r rad surf =
     \<lparr>rect = r, radius = rad, wheel_surf = surf, need_redraw = False, visible = False,
      offsetx = 0, offsety = 0, screenrect = r, gvalue = None\<rparr>"

text \<open>\<^verbatim>\<open>ColorWheelGadget.__init__\<close>: the surface comes from the cache.\<close>

definition ColorWheelGadget ::
  "floatlib \<Rightarrow> wheel_cache \<Rightarrow> rect \<Rightarrow> int \<Rightarrow> error + gadget \<times> wheel_cache" where
  "ColorWheelGadget M cache r rad =
     (case get_wheel_surface M cache rad of
        Inl e \<Rightarrow> Inl e
      | Inr (surf, cache') \<Rightarrow> Inr ((Gadget_init r rad surf)\<lparr>need_redraw := True\<rparr>, cache'))"

text \<open>
  Modelled from the spec: \<^verbatim>\<open>Gadget.pointin\<close> of \<^verbatim>\<open>libs/gadget.py\<close>, which is not among
  the sources: the position falls within the rectangle's bounds. The edges count, as in
  the spec's click at \<^verbatim>\<open>dx = radius\<close>, which lies on the right edge of the wheel's
  rectangle and commits a colour.
\<close>

definition pointin :: "int \<times> int \<Rightarrow> rect \<Rightarrow> bool" where
  "pointin coords r =
     (case r of (gx, gy, gw, gh) \<Rightarrow>
        gx \<le> fst coords \<and> gy \<le> snd coords \<and> fst coords \<le> gx + gw \<and> snd coords \<le> gy + gh)"

text \<open>
  The first lines of \<^verbatim>\<open>draw\<close> (the spec's \<^verbatim>\<open>place\<close>): they run at every call and set
  the screen rectangle that the hit test uses.
\<close>

definition place :: "gadget \<Rightarrow> int \<times> int \<Rightarrow> gadget" where
  "place self offset =
     (case rect self of (x, y, w, h) \<Rightarrow>
        case offset of (xo, yo) \<Rightarrow>
          self\<lparr>visible := True, offsetx := xo, offsety := yo,
               screenrect := (x + xo, y + yo, w, h)\<rparr>)"

text \<open>
  \<^verbatim>\<open>ColorWheelGadget.draw\<close>, on the screen it is given; \<^verbatim>\<open>font\<close>, \<^verbatim>\<open>fgcolor\<close> and
  \<^verbatim>\<open>hcolor\<close> are not used by the method.
\<close>

definition draw :: "gadget \<Rightarrow> surface \<Rightarrow> int \<times> int \<Rightarrow> color \<Rightarrow> gadget \<times> surface" where
  "draw self screen offset bgcolor =
     (let self = place self offset
      in if \<not> need_redraw self then (self, screen)
         else
           case rect self of (x, y, w, h) \<Rightarrow>
             case offset of (xo, yo) \<Rightarrow>
               let self = self\<lparr>need_redraw := False\<rparr>;
                   screen = fill screen bgcolor (screenrect self);
                   wheel_rect = get_rect (wheel_surf self) (x + xo + w div 2, y + yo + h div 2);
                   screen = blit screen (wheel_surf self) wheel_rect
               in (self, screen))"

text \<open>
  \<^verbatim>\<open>ColorWheelGadget.process_event\<close>; \<^verbatim>\<open>mouse\<close> is what \<^verbatim>\<open>mouse_pixel_mapper()\<close> returns.
  The result is the gadget after the call and the list \<^verbatim>\<open>ge\<close>. Python raises
  \<^verbatim>\<open>ZeroDivisionError\<close> at \<^verbatim>\<open>dist / self.radius\<close> when the radius is 0.
\<close>

definition process_event ::
  "floatlib \<Rightarrow> gadget \<Rightarrow> event \<Rightarrow> int \<times> int \<Rightarrow> error + gadget \<times> gadget_event list" where
  "process_event M self ev mouse =
     (if etype ev \<noteq> MOUSEBUTTONDOWN \<and> etype ev \<noteq> MOUSEBUTTONUP then Inr (self, [])
      else
        case mouse of (mx, my) \<Rightarrow>
          if \<not> pointin (mx, my) (screenrect self) then Inr (self, [])
          else if etype ev = MOUSEBUTTONDOWN \<and> button ev = 1 then
            case screenrect self of (x, y, w, h) \<Rightarrow>
              let cx = x + w div 2;
                  cy = y + h div 2;
                  dx = mx - cx;
                  dy = my - cy;
                  dist = hypot M dx dy
              in if dist > of_int (radius self) then Inr (self, [])
                 else
                   let hue = fdiv M (fmod M (atan2 M (- dy) dx) (fmul M 2 (math_pi M)))
                                    (fmul M 2 (math_pi M))
                   in if radius self = 0 then Inl ZeroDivisionError
                      else
                        let sat = min 1 (fdiv M dist (of_int (radius self)))
                        in case hsv_to_rgb M hue sat 1 of (r, g, b) \<Rightarrow>
                             Inr (self\<lparr>gvalue := Some (py_int (fmul M r 255),
                                                        py_int (fmul M g 255),
                                                        py_int (fmul M b 255))\<rparr>,
                                  [GadgetEvent TYPE_GADGETUP ev Wheel_gadget])
          else Inr (self, []))"

section \<open>The modal session\<close>

text \<open>
  What the host and the toolkit give the session: the size of the screen, the height
  \<^verbatim>\<open>req.fonty\<close> of the requestor's font, what \<^verbatim>\<open>req.get_screen_rect()\<close> returns for the
  requestor's rectangle, and the offset at which the requestor first draws its gadgets.
\<close>

record toolkit =
  get_width :: int
  get_height :: int
  fonty :: int
  get_screen_rect :: "rect \<Rightarrow> rect"
  first_offset :: "int \<times> int"

text \<open>
  The host's configuration object. \<^verbatim>\<open>pixel_req_rect\<close> is \<^verbatim>\<open>None\<close> or a rectangle;
  \<^verbatim>\<open>getattr(config, "pixel_req_rect", None)\<close> reads a missing attribute as \<^verbatim>\<open>None\<close>.
  The other attributes are the rest of the record.
\<close>

record config =
  pixel_req_rect :: "rect option"

text \<open>
  One turn of the loop starts with \<^verbatim>\<open>config.xevent.wait()\<close>. An input is what the host
  delivers then: the event, the position that \<^verbatim>\<open>mouse_pixel_mapper()\<close> reports, the
  notifications that the toolkit's own controls (OK, Cancel) emit for the event, and the
  offset at which the requestor, which can be dragged, draws its gadgets afterwards.
\<close>

record host_input =
  event :: event
  mouse :: "int \<times> int"
  others :: "gadget_event list"
  req_offset :: "int \<times> int"

text \<open>
  Modelled from the spec: \<^verbatim>\<open>Requestor.process_event\<close> of \<^verbatim>\<open>libs/gadget.py\<close>, which is not
  among the sources. It routes the event to all child controls and collects their
  notifications; the wheel was added first.
\<close>

definition req_process_event ::
  "floatlib \<Rightarrow> gadget \<Rightarrow> host_input \<Rightarrow> error + gadget \<times> gadget_event list" where
  "req_process_event M wheel_gadget inp =
     (case process_event M wheel_gadget (event inp) (mouse inp) of
        Inl e \<Rightarrow> Inl e
      | Inr (wheel_gadget', ge) \<Rightarrow> Inr (wheel_gadget', ge @ others inp))"

text \<open>
  The \<^verbatim>\<open>for ge in gevents\<close> loop. The result is \<^verbatim>\<open>(selected, running)\<close>: \<^verbatim>\<open>running\<close> is
  \<^verbatim>\<open>False\<close> exactly when the loop left through one of its three \<^verbatim>\<open>break\<close>s. Both
  \<^verbatim>\<open>isinstance(value, tuple)\<close> and \<^verbatim>\<open>value is not None\<close> say that a colour is there.
\<close>

fun for_gevents ::
  "color option \<Rightarrow> color option \<Rightarrow> gadget_event list \<Rightarrow> color option \<times> bool" where
  "for_gevents val selected [] = (selected, True)"
| "for_gevents val selected (ge # gevents) =
     (if ge_type ge = TYPE_GADGETUP then
        if ge_gadget ge = Wheel_gadget \<and> val \<noteq> None then (val, False)
        else if ge_gadget ge = Ok_g then ((if val \<noteq> None then val else selected), False)
        else if ge_gadget ge = Cancel_g then (None, False)
        else for_gevents val selected gevents
      else for_gevents val selected gevents)"

text \<open>
  The \<^verbatim>\<open>while running\<close> loop over the inputs that the host delivers. Each turn routes
  the event, scans the notifications and redraws; the redraw reaches the wheel through
  \<^verbatim>\<open>req.draw\<close>, which places it at the requestor's offset. The result is the wheel,
  \<^verbatim>\<open>selected\<close> and \<^verbatim>\<open>running\<close>: \<^verbatim>\<open>running\<close> is still \<^verbatim>\<open>True\<close> when the inputs ran out
  with the loop blocked in \<^verbatim>\<open>wait()\<close>.
\<close>

fun event_loop ::
  "floatlib \<Rightarrow> gadget \<Rightarrow> color option \<Rightarrow> host_input list
     \<Rightarrow> error + gadget \<times> color option \<times> bool" where
  "event_loop M wheel_gadget selected [] = Inr (wheel_gadget, selected, True)"
| "event_loop M wheel_gadget selected (inp # inputs) =
     (case req_process_event M wheel_gadget inp of
        Inl e \<Rightarrow> Inl e
      | Inr (wheel_gadget, gevents) \<Rightarrow>
          (case for_gevents (gvalue wheel_gadget) selected gevents of
             (selected, running) \<Rightarrow>
               let wheel_gadget = place wheel_gadget (req_offset inp)
               in if running then event_loop M wheel_gadget selected inputs
                  else Inr (wheel_gadget, selected, False)))"

text \<open>
  \<^verbatim>\<open>colorwheel_req(screen, config, initial_rgb)\<close> on the inputs that the host delivers.
  The result is what the call returned, if it has returned (\<^verbatim>\<open>Some selected\<close>; \<^verbatim>\<open>None\<close>
  while the loop still waits for an event), the configuration object and the cache.
\<close>

definition colorwheel_req ::
  "floatlib \<Rightarrow> toolkit \<Rightarrow> wheel_cache \<Rightarrow> 'a config_scheme \<Rightarrow> color option \<Rightarrow> host_input list
     \<Rightarrow> error + (color option) option \<times> 'a config_scheme \<times> wheel_cache" where
  "colorwheel_req M T cache config initial_rgb inputs =
     (let rad = 88;
          wheel_size = rad * 2;
          req_w = wheel_size + 16;
          req_h = wheel_size + 40;
          req_rect = ((get_width T - req_w) div 2, (get_height T - req_h) div 2, req_w, req_h);
          prr_backup = pixel_req_rect config;
          config = config\<lparr>pixel_req_rect := Some (get_screen_rect T req_rect)\<rparr>;
          wheel_rect = (8, 8 + fonty T, wheel_size, wheel_size)
      in case ColorWheelGadget M cache wheel_rect rad of
           Inl e \<Rightarrow> Inl e
         | Inr (wheel_gadget, cache) \<Rightarrow>
             let wheel_gadget = (if initial_rgb \<noteq> None
                                 then wheel_gadget\<lparr>gvalue := initial_rgb\<rparr> else wheel_gadget);
                 wheel_gadget = place wheel_gadget (first_offset T)
             in case event_loop M wheel_gadget None inputs of
                  Inl e \<Rightarrow> Inl e
                | Inr (wheel_gadget, selected, running) \<Rightarrow>
                    if running then Inr (None, config, cache)
                    else Inr (Some selected, config\<lparr>pixel_req_rect := prr_backup\<rparr>, cache))"

section \<open>The renderer fills the square\<close>

lemma set_at_size [simp]: "width (set_at s p c) = width s" "height (set_at s p c) = height s"
  "colorkey (set_at s p c) = colorkey s"
  by (simp_all add: set_at_def)

lemma inside_set_at [simp]: "inside (set_at s p c) q = inside s q"
  by (simp add: inside_def)

lemma get_at_set_at:
  "get_at (set_at s p c) q = (if inside s p \<and> q = p then c else get_at s q)"
  by (simp add: set_at_def)

lemma render_pixel_size [simp]:
  "width (render_pixel M r y x s) = width s" "height (render_pixel M r y x s) = height s"
  "colorkey (render_pixel M r y x s) = colorkey s"
  by (simp_all add: render_pixel_def Let_def split: prod.splits)

lemma render_pixel_color:
  "render_pixel M r y x s =
     set_at s (x, y) (if hypot M (x - r) (y - r) > of_int r then (0, 0, 0)
                      else spec_color M r (x - r) (y - r))"
  by (simp add: render_pixel_def spec_color_def Let_def split: prod.splits)

lemma render_pixel_eq: "render_pixel M r y x s = set_at s (x, y) (wheel_pixel M r (x, y))"
  by (simp add: render_pixel_color wheel_pixel_def)

lemma fold_row_size [simp]:
  "width (fold (render_pixel M r y) xs s) = width s"
  "height (fold (render_pixel M r y) xs s) = height s"
  "colorkey (fold (render_pixel M r y) xs s) = colorkey s"
  by (induction xs arbitrary: s) simp_all

lemma inside_fold_row [simp]: "inside (fold (render_pixel M r y) xs s) q = inside s q"
  by (simp add: inside_def)

lemma get_at_fold_row:
  "get_at (fold (render_pixel M r y) xs s) q =
     (if inside s q \<and> snd q = y \<and> fst q \<in> set xs then wheel_pixel M r q else get_at s q)"
proof (induction xs arbitrary: s)
  case Nil
  then show ?case by simp
next
  case (Cons x xs)
  have "get_at (fold (render_pixel M r y) (x # xs) s) q =
          get_at (fold (render_pixel M r y) xs (render_pixel M r y x s)) q"
    by simp
  also have "\<dots> = (if inside (render_pixel M r y x s) q \<and> snd q = y \<and> fst q \<in> set xs
                     then wheel_pixel M r q else get_at (render_pixel M r y x s) q)"
    by (rule Cons.IH)
  also have "\<dots> = (if inside s q \<and> snd q = y \<and> fst q \<in> set (x # xs)
                     then wheel_pixel M r q else get_at s q)"
    by (cases q) (auto simp add: render_pixel_eq get_at_set_at)
  finally show ?case .
qed

lemma fold_rows_size [simp]:
  "width (fold (\<lambda>y surf. fold (render_pixel M r y) xs surf) ys s) = width s"
  "height (fold (\<lambda>y surf. fold (render_pixel M r y) xs surf) ys s) = height s"
  "colorkey (fold (\<lambda>y surf. fold (render_pixel M r y) xs surf) ys s) = colorkey s"
  by (induction ys arbitrary: s) simp_all

lemma get_at_fold_rows:
  "get_at (fold (\<lambda>y surf. fold (render_pixel M r y) xs surf) ys s) q =
     (if inside s q \<and> snd q \<in> set ys \<and> fst q \<in> set xs then wheel_pixel M r q else get_at s q)"
proof (induction ys arbitrary: s)
  case Nil
  then show ?case by simp
next
  case (Cons y ys)
  let ?row = "fold (render_pixel M r y) xs s"
  have "get_at (fold (\<lambda>y surf. fold (render_pixel M r y) xs surf) (y # ys) s) q =
          get_at (fold (\<lambda>y surf. fold (render_pixel M r y) xs surf) ys ?row) q"
    by simp
  also have "\<dots> = (if inside ?row q \<and> snd q \<in> set ys \<and> fst q \<in> set xs
                     then wheel_pixel M r q else get_at ?row q)"
    by (rule Cons.IH)
  also have "\<dots> = (if inside s q \<and> snd q \<in> set (y # ys) \<and> fst q \<in> set xs
                     then wheel_pixel M r q else get_at s q)"
    by (auto simp add: get_at_fold_row)
  finally show ?case .
qed

lemma set_range [simp]: "set (range n) = {0..<n}"
  by (auto simp add: range_def)

lemma generate_wheel_surface_Inr:
  "0 \<le> r \<Longrightarrow> generate_wheel_surface M r =
     Inr (fold (\<lambda>y surf. fold (render_pixel M r y) (range (r * 2)) surf)
               (range (r * 2)) (Surface (r * 2, r * 2)))"
  by (simp add: generate_wheel_surface_def Let_def)

lemma generate_wheel_surface_props:
  assumes "generate_wheel_surface M r = Inr surf"
  shows "width surf = r * 2" "height surf = r * 2" "colorkey surf = None"
    "get_at surf q = (if inside surf q then wheel_pixel M r q else (0, 0, 0))"
  using assms
  by (auto simp add: generate_wheel_surface_def Let_def get_at_fold_rows Surface_def inside_def
      split: if_splits)


lemma exact_simps [simp]:
  "hypot exact dx dy = sqrt (of_int (dx * dx + dy * dy))"
  "atan2 exact y x = exact_atan2 (of_int y) (of_int x)"
  "math_pi exact = pi"
  "fmod exact = exact_fmod"
  "fdiv exact a b = a / b"
  "fmul exact a b = a * b"
  "hsv_to_rgb exact = exact_hsv_to_rgb"
  by (simp_all add: exact_def)

lemma spec_color_centre: "spec_color exact r 0 0 = (255, 255, 255)"
  by (simp add: spec_color_def exact_atan2_def exact_fmod_def exact_hsv_to_rgb_def py_int_def)

text \<open>
  C2. For every radius > 0 the rendered buffer is a square of side 2 * radius. Each of
  its pixels \<^verbatim>\<open>(x, y)\<close> whose distance \<^verbatim>\<open>dist = hypot(x - radius, y - radius)\<close> is at most the
  radius holds the colour that the HSV formula gives its displacement (hue from the
  angle, saturation \<^verbatim>\<open>min(1, dist / radius)\<close>, value 1), and each pixel with
  \<^verbatim>\<open>dist > radius\<close> holds the out-of-wheel mark \<^verbatim>\<open>(0, 0, 0)\<close>. This holds whatever the
  float library computes.
\<close>

theorem generate_wheel_surface_correct:
  assumes "0 < rad"
  shows "\<exists>surf. generate_wheel_surface M rad = Inr surf
           \<and> width surf = 2 * rad \<and> height surf = 2 * rad
           \<and> (\<forall>x y. 0 \<le> x \<and> x < 2 * rad \<and> 0 \<le> y \<and> y < 2 * rad \<longrightarrow>
                 get_at surf (x, y) =
                   (if hypot M (x - rad) (y - rad) > of_int rad then (0, 0, 0)
                    else spec_color M rad (x - rad) (y - rad)))"
proof -
  from assms obtain surf where s: "generate_wheel_surface M rad = Inr surf"
    by (simp add: generate_wheel_surface_Inr)
  have "get_at surf (x, y) =
          (if hypot M (x - rad) (y - rad) > of_int rad then (0, 0, 0)
           else spec_color M rad (x - rad) (y - rad))"
    if "0 \<le> x \<and> x < 2 * rad \<and> 0 \<le> y \<and> y < 2 * rad" for x y
    using that generate_wheel_surface_props [OF s]
    by (simp add: inside_def wheel_pixel_def)
  with s generate_wheel_surface_props(1,2) [OF s] show ?thesis
    by (simp add: mult.commute)
qed

theorem generate_wheel_surface_correct_witness:
  "(0::int) < 1 \<and>
   (case generate_wheel_surface exact 1 of
      Inl e \<Rightarrow> False
    | Inr surf \<Rightarrow> width surf = 2 \<and> height surf = 2
        \<and> get_at surf (1, 1) = (255, 255, 255) \<and> get_at surf (0, 0) = (0, 0, 0))"
proof -
  from generate_wheel_surface_correct [of 1 exact]
  obtain surf where s: "generate_wheel_surface exact 1 = Inr surf"
      "width surf = 2" "height surf = 2"
    and px: "\<And>x y. 0 \<le> x \<and> x < 2 \<and> 0 \<le> y \<and> y < 2 \<Longrightarrow>
               get_at surf (x, y) =
                 (if hypot exact (x - 1) (y - 1) > 1 then (0, 0, 0)
                  else spec_color exact 1 (x - 1) (y - 1))"
    by auto
  have "get_at surf (1, 1) = (255, 255, 255)"
    using px [of 1 1] by (simp add: spec_color_centre)
  moreover have "get_at surf (0, 0) = (0, 0, 0)"
    using px [of 0 0] by simp
  ultimately show ?thesis
    using s by simp
qed

text \<open>
  C6. For a radius that is not negative the cached renderer returns a buffer. When a
  call has returned a buffer for a radius, a second call with that radius returns the
  same buffer and leaves the cache as it is, and it does so whatever library \<^verbatim>\<open>M'\<close>
  the renderer would compute with: nothing is rendered again. The entry is in the cache
  after the call, and a call removes or changes no entry that was there before it.
\<close>

theorem get_wheel_surface_renders_once:
  "(0 \<le> rad \<longrightarrow> (\<exists>surf cache'. get_wheel_surface M cache rad = Inr (surf, cache')))
   \<and> (get_wheel_surface M cache rad = Inr (surf, cache') \<longrightarrow>
        get_wheel_surface M' cache' rad = Inr (surf, cache')
        \<and> cache' rad = Some surf
        \<and> (\<forall>r s. cache r = Some s \<longrightarrow> cache' r = Some s))"
  by (auto simp add: get_wheel_surface_def generate_wheel_surface_Inr
      split: option.splits sum.splits)

theorem get_wheel_surface_renders_once_witness:
  "case get_wheel_surface exact Map.empty 1 of
     Inl e \<Rightarrow> False
   | Inr (surf, cache') \<Rightarrow>
       get_wheel_surface (exact\<lparr>hypot := \<lambda>dx dy. 0\<rparr>) cache' 1 = Inr (surf, cache')
       \<and> cache' 1 = Some surf"
proof -
  obtain surf cache' where g: "get_wheel_surface exact Map.empty 1 = Inr (surf, cache')"
    by (simp add: get_wheel_surface_def generate_wheel_surface_Inr)
  from get_wheel_surface_renders_once
    [of 1 exact Map.empty surf cache' "exact\<lparr>hypot := \<lambda>dx dy. 0\<rparr>"] g
  show ?thesis by simp
qed

section \<open>The gadget\<close>

lemma process_event_click:
  assumes "etype ev = MOUSEBUTTONDOWN" and "button ev = 1"
    and "pointin (mx, my) (screenrect g)"
    and "screenrect g = (x, y, w, h)"
    and "\<not> hypot M (mx - (x + w div 2)) (my - (y + h div 2)) > of_int (radius g)"
    and "radius g \<noteq> 0"
  shows "process_event M g ev (mx, my) =
           Inr (g\<lparr>gvalue := Some (spec_color M (radius g) (mx - (x + w div 2)) (my - (y + h div 2)))\<rparr>,
                [GadgetEvent TYPE_GADGETUP ev Wheel_gadget])"
  using assms
  by (simp add: process_event_def spec_color_def Let_def split: prod.splits)

lemma process_event_outside:
  assumes "etype ev = MOUSEBUTTONDOWN"
    and "screenrect g = (x, y, w, h)"
    and "hypot M (mx - (x + w div 2)) (my - (y + h div 2)) > of_int (radius g)"
  shows "process_event M g ev (mx, my) = Inr (g, [])"
  using assms
  by (simp add: process_event_def Let_def)

lemma process_event_not_down:
  "etype ev \<noteq> MOUSEBUTTONDOWN \<Longrightarrow> process_event M g ev m = Inr (g, [])"
  by (cases m) (simp add: process_event_def)

lemma process_event_result:
  assumes "process_event M g ev m = Inr (g', ges)"
  shows "(g' = g \<and> ges = []) \<or>
         (\<exists>c. g' = g\<lparr>gvalue := Some c\<rparr> \<and> ges = [GadgetEvent TYPE_GADGETUP ev Wheel_gadget])"
  using assms
  by (cases m) (auto simp add: process_event_def Let_def split: if_splits prod.splits)

lemma sqrt_7744: "sqrt 7744 = 88"
  by (rule real_sqrt_unique) simp_all

lemma spec_color_west: "spec_color exact 88 (- 88) 0 = (0, 255, 255)"
  by (simp add: spec_color_def exact_atan2_def exact_fmod_def exact_hsv_to_rgb_def py_int_def sqrt_7744 Let_def)

lemma spec_color_east: "spec_color exact 88 88 0 = (255, 0, 0)"
  by (simp add: spec_color_def exact_atan2_def exact_fmod_def exact_hsv_to_rgb_def py_int_def sqrt_7744 Let_def)

lemma corner_outside: "sqrt 15488 > 88"
  by (rule real_less_rsqrt) simp


lemma ColorWheelGadget_Inr:
  assumes "0 \<le> rad"
  shows "\<exists>surf cache'. ColorWheelGadget M cache r rad =
           Inr (\<lparr>rect = r, radius = rad, wheel_surf = surf, need_redraw = True, visible = False,
                 offsetx = 0, offsety = 0, screenrect = r, gvalue = None\<rparr>, cache')"
  using assms
  by (simp add: ColorWheelGadget_def get_wheel_surface_def generate_wheel_surface_Inr
      Gadget_init_def split: option.splits)

text \<open>
  C3. A pointer-down reaches the distance test when it lies within the widget's
  placement rectangle; \<^verbatim>\<open>dist\<close> is then the distance of the pointer from the centre of
  that rectangle. A primary-button pointer-down with \<^verbatim>\<open>dist == radius\<close> is accepted: the
  widget's value becomes the colour of the position and one notification is emitted. A
  pointer-down with \<^verbatim>\<open>dist > radius\<close>, whatever its button, changes nothing and emits
  nothing. The exclusion test is \<^verbatim>\<open>dist > radius\<close>. The radius is positive, as the
  widget's contract asks.
\<close>

theorem process_event_hit_test:
  assumes "etype ev = MOUSEBUTTONDOWN"
    and "screenrect g = (x, y, w, h)"
    and "dx = mx - (x + w div 2)" and "dy = my - (y + h div 2)"
    and "d = hypot M dx dy"
  shows "(button ev = 1 \<and> pointin (mx, my) (screenrect g) \<and> 0 < radius g
            \<and> d = of_int (radius g) \<longrightarrow>
          process_event M g ev (mx, my) =
            Inr (g\<lparr>gvalue := Some (spec_color M (radius g) dx dy)\<rparr>,
                 [GadgetEvent TYPE_GADGETUP ev Wheel_gadget]))
       \<and> (d > of_int (radius g) \<longrightarrow> process_event M g ev (mx, my) = Inr (g, []))"
proof (intro conjI impI)
  assume "button ev = 1 \<and> pointin (mx, my) (screenrect g) \<and> 0 < radius g
            \<and> d = of_int (radius g)"
  with assms show "process_event M g ev (mx, my) =
            Inr (g\<lparr>gvalue := Some (spec_color M (radius g) dx dy)\<rparr>,
                 [GadgetEvent TYPE_GADGETUP ev Wheel_gadget])"
    using process_event_click [of ev mx my g x y w h M] by simp
next
  assume "d > of_int (radius g)"
  with assms show "process_event M g ev (mx, my) = Inr (g, [])"
    using process_event_outside [of ev g x y w h M mx my] by simp
qed


theorem process_event_hit_test_witness:
  "case ColorWheelGadget exact Map.empty (8, 28, 176, 176) 88 of
     Inl e \<Rightarrow> False
   | Inr (g, cache') \<Rightarrow>
       process_event exact g \<lparr>etype = MOUSEBUTTONDOWN, button = 1\<rparr> (8, 116) =
         Inr (g\<lparr>gvalue := Some (0, 255, 255)\<rparr>,
              [GadgetEvent TYPE_GADGETUP \<lparr>etype = MOUSEBUTTONDOWN, button = 1\<rparr> Wheel_gadget])
       \<and> process_event exact g \<lparr>etype = MOUSEBUTTONDOWN, button = 1\<rparr> (8, 28) = Inr (g, [])"
proof -
  let ?ev = "\<lparr>etype = MOUSEBUTTONDOWN, button = 1\<rparr>"
  obtain g cache' where c: "ColorWheelGadget exact Map.empty (8, 28, 176, 176) 88 = Inr (g, cache')"
    and g: "screenrect g = (8, 28, 176, 176)" "radius g = 88"
    using ColorWheelGadget_Inr [of 88 exact Map.empty "(8, 28, 176, 176)"] by auto
  have "process_event exact g ?ev (8, 116) =
          Inr (g\<lparr>gvalue := Some (0, 255, 255)\<rparr>, [GadgetEvent TYPE_GADGETUP ?ev Wheel_gadget])"
    using process_event_hit_test [where M = exact and ev = ?ev and mx = 8 and my = 116,
        OF _ g(1) refl refl refl] g
    by (simp add: pointin_def sqrt_7744 spec_color_west)
  moreover have "process_event exact g ?ev (8, 28) = Inr (g, [])"
    using process_event_hit_test [where M = exact and ev = ?ev and mx = 8 and my = 28,
        OF _ g(1) refl refl refl] g
    by (simp add: corner_outside)
  ultimately show ?thesis
    using c by simp
qed

lemma range_contractD:
  assumes "range_contract M"
  shows "0 \<le> hypot M dx dy"
    and "0 < fmul M 2 (math_pi M)"
    and "0 < y \<Longrightarrow> 0 \<le> fmod M x y"
    and "0 < y \<Longrightarrow> fmod M x y \<le> y"
    and "0 \<le> a \<Longrightarrow> 0 < b \<Longrightarrow> 0 \<le> fdiv M a b"
    and "0 \<le> a \<Longrightarrow> 0 < b \<Longrightarrow> a \<le> b \<Longrightarrow> fdiv M a b \<le> 1"
    and "0 \<le> h \<Longrightarrow> h \<le> 1 \<Longrightarrow> 0 \<le> s \<Longrightarrow> s \<le> 1 \<Longrightarrow>
           (case hsv_to_rgb M h s 1 of (r, g, b) \<Rightarrow>
               0 \<le> r \<and> r \<le> 1 \<and> 0 \<le> g \<and> g \<le> 1 \<and> 0 \<le> b \<and> b \<le> 1)"
    and "0 \<le> c \<Longrightarrow> c \<le> 1 \<Longrightarrow> 0 \<le> fmul M c 255"
    and "0 \<le> c \<Longrightarrow> c \<le> 1 \<Longrightarrow> fmul M c 255 \<le> 255"
  using assms unfolding range_contract_def by auto

lemma exact_fmod_bounds:
  assumes "0 < y"
  shows "0 \<le> exact_fmod x y" "exact_fmod x y \<le> y"
proof -
  have "of_int \<lfloor>x / y\<rfloor> \<le> x / y" by simp
  with assms have "y * of_int \<lfloor>x / y\<rfloor> \<le> y * (x / y)"
    by (rule_tac mult_left_mono) simp_all
  with assms show "0 \<le> exact_fmod x y" by (simp add: exact_fmod_def)
  have "x / y \<le> of_int \<lfloor>x / y\<rfloor> + 1" by linarith
  with assms have "y * (x / y) \<le> y * (of_int \<lfloor>x / y\<rfloor> + 1)"
    by (rule_tac mult_left_mono) simp_all
  with assms show "exact_fmod x y \<le> y" by (simp add: exact_fmod_def algebra_simps)
qed

lemma exact_hsv_unit:
  assumes "0 \<le> h" and "0 \<le> s" and "s \<le> 1"
  shows "case exact_hsv_to_rgb h s 1 of (r, g, b) \<Rightarrow>
           0 \<le> r \<and> r \<le> 1 \<and> 0 \<le> g \<and> g \<le> 1 \<and> 0 \<le> b \<and> b \<le> 1"
proof -
  define f where "f = h * 6 - of_int \<lfloor>h * 6\<rfloor>"
  have f: "0 \<le> f" "f \<le> 1"
    unfolding f_def by linarith+
  have sf: "0 \<le> s * f" "s * f \<le> 1" "0 \<le> s * (1 - f)" "s * (1 - f) \<le> 1"
    using assms f by (simp_all add: mult_le_one)
  from assms have i: "py_int (h * 6) = \<lfloor>h * 6\<rfloor>"
    by (simp add: py_int_def)
  show ?thesis
    using assms sf
    by (simp add: exact_hsv_to_rgb_def i Let_def f_def [symmetric])
qed

lemma exact_range_contract: "range_contract exact"
  unfolding range_contract_def
proof (intro conjI allI impI)
  fix h s :: real
  assume "0 \<le> h \<and> h \<le> 1 \<and> 0 \<le> s \<and> s \<le> 1"
  then show "case hsv_to_rgb exact h s 1 of (r, g, b) \<Rightarrow>
               0 \<le> r \<and> r \<le> 1 \<and> 0 \<le> g \<and> g \<le> 1 \<and> 0 \<le> b \<and> b \<le> 1"
    using exact_hsv_unit [of h s] by simp
qed (simp_all add: exact_fmod_bounds del: of_int_add of_int_mult)

lemma py_int_range:
  assumes "0 \<le> x" and "x \<le> 255"
  shows "0 \<le> py_int x" "py_int x \<le> 255"
  using assms by (simp_all add: py_int_def floor_le_iff)

lemma spec_color_8bit:
  assumes "range_contract M" and "0 < rad"
  shows "is_8bit (spec_color M rad dx dy)"
proof -
  note c = range_contractD [OF assms(1)]
  let ?two_pi = "fmul M 2 (math_pi M)"
  let ?angle = "fmod M (atan2 M (- dy) dx) ?two_pi"
  let ?h = "fdiv M ?angle ?two_pi"
  let ?s = "min 1 (fdiv M (hypot M dx dy) (of_int rad))"
  have tp: "0 < ?two_pi" by (rule c(2))
  have a: "0 \<le> ?angle" "?angle \<le> ?two_pi"
    by (rule c(3) [OF tp], rule c(4) [OF tp])
  have h: "0 \<le> ?h" "?h \<le> 1"
    by (rule c(5) [OF a(1) tp], rule c(6) [OF a(1) tp a(2)])
  have "0 \<le> fdiv M (hypot M dx dy) (of_int rad)"
    using assms(2) by (intro c(5) c(1)) simp
  then have s: "0 \<le> ?s" "?s \<le> 1"
    by simp_all
  obtain r g b where rgb: "hsv_to_rgb M ?h ?s 1 = (r, g, b)"
    by (cases "hsv_to_rgb M ?h ?s 1") auto
  from c(7) [OF h s] rgb
  have u: "0 \<le> r" "r \<le> 1" "0 \<le> g" "g \<le> 1" "0 \<le> b" "b \<le> 1"
    by simp_all
  have "is_8bit (py_int (fmul M r 255), py_int (fmul M g 255), py_int (fmul M b 255))"
    unfolding is_8bit_def prod.case
    by (intro conjI py_int_range c(8) c(9) u)
  with rgb show ?thesis
    by (simp add: spec_color_def Let_def)
qed

lemma process_event_accepted:
  assumes "process_event M g ev m = Inr (g', ges)" and "ges \<noteq> []"
  shows "\<exists>dx dy. gvalue g' = Some (spec_color M (radius g) dx dy)
           \<and> \<not> hypot M dx dy > of_int (radius g) \<and> radius g \<noteq> 0"
proof -
  obtain mx my where m: "m = (mx, my)" by (cases m)
  obtain x y w h where sr: "screenrect g = (x, y, w, h)" by (cases "screenrect g")
  let ?dx = "mx - (x + w div 2)" and ?dy = "my - (y + h div 2)"
  have c: "etype ev = MOUSEBUTTONDOWN \<and> button ev = 1 \<and> pointin (mx, my) (screenrect g)
           \<and> \<not> hypot M ?dx ?dy > of_int (radius g) \<and> radius g \<noteq> 0"
    using assms unfolding m
    by (auto simp add: process_event_def sr Let_def split: if_splits)
  with process_event_click [of ev mx my g x y w h M] sr assms(1)
  have "gvalue g' = Some (spec_color M (radius g) ?dx ?dy)"
    by (auto simp add: m)
  with c show ?thesis by blast
qed

text \<open>
  C10. For every float library that keeps the range contract, as IEEE doubles do, every
  pixel of a rendered buffer and every value that an accepted wheel click stores is a
  triple of integers from 0 to 255: the hue and the saturation lie in [0, 1], so each
  channel of \<^verbatim>\<open>hsv_to_rgb\<close> lies in [0, 1], and it is scaled by 255 and truncated.
\<close>

theorem colors_are_8bit:
  assumes "range_contract M"
  shows "(generate_wheel_surface M rad = Inr surf \<and> inside surf p \<longrightarrow> is_8bit (get_at surf p))
   \<and> (process_event M g ev m = Inr (g', ges) \<and> ges \<noteq> [] \<longrightarrow>
        (\<exists>c. gvalue g' = Some c \<and> is_8bit c))"
proof (intro conjI impI)
  assume a: "generate_wheel_surface M rad = Inr surf \<and> inside surf p"
  then have "0 < rad"
    using generate_wheel_surface_props(1) [of M rad surf] by (auto simp add: inside_def)
  then have "is_8bit (wheel_pixel M rad p)"
    using spec_color_8bit [OF assms, of rad] by (simp add: wheel_pixel_def is_8bit_def)
  with a show "is_8bit (get_at surf p)"
    using generate_wheel_surface_props(4) [of M rad surf p] by simp
next
  assume "process_event M g ev m = Inr (g', ges) \<and> ges \<noteq> []"
  then obtain dx dy where v: "gvalue g' = Some (spec_color M (radius g) dx dy)"
    and d: "\<not> hypot M dx dy > of_int (radius g)" and r: "radius g \<noteq> 0"
    using process_event_accepted [of M g ev m g' ges] by auto
  from assms have "0 \<le> hypot M dx dy"
    by (rule range_contractD(1))
  with d have "(0::real) \<le> of_int (radius g)" by linarith
  with r have "0 < radius g" by simp
  with v show "\<exists>c. gvalue g' = Some c \<and> is_8bit c"
    by (simp add: spec_color_8bit [OF assms])
qed

theorem colors_are_8bit_witness:
  "range_contract exact
   \<and> (case generate_wheel_surface exact 1 of
      Inl e \<Rightarrow> False
    | Inr surf \<Rightarrow> inside surf (1, 1) \<and> is_8bit (get_at surf (1, 1)))
   \<and> (case ColorWheelGadget exact Map.empty (8, 28, 176, 176) 88 of
         Inl e \<Rightarrow> False
       | Inr (g, cache') \<Rightarrow>
           (case process_event exact g \<lparr>etype = MOUSEBUTTONDOWN, button = 1\<rparr> (8, 116) of
              Inl e \<Rightarrow> False
            | Inr (g', ges) \<Rightarrow> ges \<noteq> [] \<and> (\<exists>c. gvalue g' = Some c \<and> is_8bit c)))"
proof -
  let ?ev = "\<lparr>etype = MOUSEBUTTONDOWN, button = 1\<rparr>"
  obtain surf where s: "generate_wheel_surface exact 1 = Inr surf"
    by (simp add: generate_wheel_surface_Inr)
  have i: "inside surf (1, 1)"
    using generate_wheel_surface_props(1,2) [OF s] by (simp add: inside_def)
  obtain g cache' where c: "ColorWheelGadget exact Map.empty (8, 28, 176, 176) 88 = Inr (g, cache')"
    and g: "screenrect g = (8, 28, 176, 176)" "radius g = 88"
    using ColorWheelGadget_Inr [of 88 exact Map.empty "(8, 28, 176, 176)"] by auto
  have p: "process_event exact g ?ev (8, 116) =
          Inr (g\<lparr>gvalue := Some (spec_color exact 88 (- 88) 0)\<rparr>,
               [GadgetEvent TYPE_GADGETUP ?ev Wheel_gadget])"
    using process_event_click [of ?ev 8 116 g 8 28 176 176 exact] g
    by (simp add: pointin_def sqrt_7744)
  from colors_are_8bit [OF exact_range_contract, of 1 surf "(1, 1)" g ?ev "(8, 116)"
      "g\<lparr>gvalue := Some (spec_color exact 88 (- 88) 0)\<rparr>"
      "[GadgetEvent TYPE_GADGETUP ?ev Wheel_gadget]"] s i c p exact_range_contract
  show ?thesis by (simp add: spec_color_west is_8bit_def)
qed

lemma ColorWheelGadget_fresh:
  assumes "0 \<le> rad" and "cache rad = None"
  shows "\<exists>surf. generate_wheel_surface M rad = Inr surf \<and>
           ColorWheelGadget M cache r rad =
             Inr (\<lparr>rect = r, radius = rad, wheel_surf = surf, need_redraw = True, visible = False,
                   offsetx = 0, offsety = 0, screenrect = r, gvalue = None\<rparr>, cache(rad \<mapsto> surf))"
  using assms
  by (simp add: ColorWheelGadget_def get_wheel_surface_def generate_wheel_surface_Inr
      Gadget_init_def)

lemma inside_fill [simp]: "inside (fill s c r) p = inside s p"
  by (cases r) (simp add: fill_def inside_def)

lemma get_at_blit:
  assumes "inside dst p" and "inside src (fst p - x, snd p - y)" and "colorkey src = None"
  shows "get_at (blit dst src (x, y, w, h)) p = get_at src (fst p - x, snd p - y)"
  using assms by (simp add: blit_def Let_def)

lemma draw_screen:
  assumes "need_redraw g" and "rect g = (x, y, w, h)"
  shows "snd (draw g screen (xo, yo) bgcolor) =
           blit (fill screen bgcolor (x + xo, y + yo, w, h)) (wheel_surf g)
                (get_rect (wheel_surf g) (x + xo + w div 2, y + yo + h div 2))"
  using assms by (simp add: draw_def place_def Let_def)

lemma get_at_draw:
  assumes "need_redraw g" and "rect g = (x, y, w, h)"
    and "colorkey (wheel_surf g) = None"
    and "inside (wheel_surf g) q" and "inside screen p"
    and "fst p = x + xo + w div 2 - width (wheel_surf g) div 2 + fst q"
    and "snd p = y + yo + h div 2 - height (wheel_surf g) div 2 + snd q"
  shows "get_at (snd (draw g screen (xo, yo) bgcolor)) p = get_at (wheel_surf g) q"
proof -
  let ?x0 = "x + xo + w div 2 - width (wheel_surf g) div 2"
  let ?y0 = "y + yo + h div 2 - height (wheel_surf g) div 2"
  have q: "(fst p - ?x0, snd p - ?y0) = q"
    using assms(6,7) by (cases q) simp
  have "get_at (blit (fill screen bgcolor (x + xo, y + yo, w, h)) (wheel_surf g)
                  (?x0, ?y0, width (wheel_surf g), height (wheel_surf g))) p =
        get_at (wheel_surf g) (fst p - ?x0, snd p - ?y0)"
    using assms(3-5) by (intro get_at_blit) (simp_all only: q inside_fill)
  then show ?thesis
    using assms(1,2) by (simp only: draw_screen get_rect_def fst_conv snd_conv q)
qed

text \<open>
  C4. The session's wheel (radius 88 in a rectangle of 176 by 176 at (8, 28)), drawn
  on a white screen of 640 by 480 with the default background (160, 160, 160): the
  top left pixel of the rectangle lies outside the circle, and after \<^verbatim>\<open>draw\<close> it is
  black. The buffer's out-of-circle pixels are the opaque colour (0, 0, 0), the buffer
  has no colorkey, and \<^verbatim>\<open>blit\<close> copies them over the background that was filled first.
\<close>

theorem draw_corner_is_black:
  "case ColorWheelGadget exact Map.empty (8, 28, 176, 176) 88 of
     Inl e \<Rightarrow> False
   | Inr (g, cache') \<Rightarrow>
       get_at (snd (draw g (fill (Surface (640, 480)) (255, 255, 255) (0, 0, 640, 480))
                         (0, 0) (160, 160, 160))) (8, 28) = (0, 0, 0)"
proof -
  let ?screen = "fill (Surface (640, 480)) (255, 255, 255) (0, 0, 640, 480)"
  obtain surf where s: "generate_wheel_surface exact 88 = Inr surf"
    and c: "ColorWheelGadget exact Map.empty (8, 28, 176, 176) 88 =
             Inr (\<lparr>rect = (8, 28, 176, 176), radius = 88, wheel_surf = surf, need_redraw = True,
                   visible = False, offsetx = 0, offsety = 0, screenrect = (8, 28, 176, 176),
                   gvalue = None\<rparr>, [88 \<mapsto> surf])"
    using ColorWheelGadget_fresh [of 88 Map.empty exact "(8, 28, 176, 176)"] by auto
  let ?g = "\<lparr>rect = (8, 28, 176, 176), radius = 88, wheel_surf = surf, need_redraw = True,
                   visible = False, offsetx = 0, offsety = 0, screenrect = (8, 28, 176, 176),
                   gvalue = None\<rparr>"
  note props = generate_wheel_surface_props [OF s]
  have i: "inside surf (0, 0)"
    using props(1,2) by (simp add: inside_def)
  have "get_at (snd (draw ?g ?screen (0, 0) (160, 160, 160))) (8, 28) = get_at surf (0, 0)"
    using props(1-3) i
      get_at_draw [of ?g 8 28 176 176 "(0, 0)" ?screen "(8, 28)" 0 0 "(160, 160, 160)"]
    by (simp add: fill_def inside_def Surface_def)
  also have "\<dots> = (0, 0, 0)"
    using props(4) [of "(0, 0)"] i by (simp add: wheel_pixel_def corner_outside)
  finally show ?thesis
    using c by simp
qed

section \<open>The session\<close>

lemma for_gevents_running:
  "for_gevents v sel ges = (sel', True) \<Longrightarrow> sel' = sel"
  by (induction ges) (auto split: if_splits)

lemma place_fields [simp]:
  "gvalue (place g off) = gvalue g" "radius (place g off) = radius g"
  "rect (place g off) = rect g" "wheel_surf (place g off) = wheel_surf g"
  by (simp_all add: place_def split: prod.splits)

lemma screenrect_place:
  "rect g = (x, y, w, h) \<Longrightarrow> screenrect (place g off) = (x + fst off, y + snd off, w, h)"
  by (simp add: place_def split: prod.splits)

lemma process_event_fields:
  assumes "process_event M g ev m = Inr (g', ges)"
  shows "radius g' = radius g" "rect g' = rect g" "screenrect g' = screenrect g"
    "wheel_surf g' = wheel_surf g"
  using process_event_result [OF assms] by auto

text \<open>One turn of the loop that leaves it running has met no click on the wheel.\<close>

lemma loop_turn_running:
  assumes "req_process_event M g inp = Inr (g1, gevents)"
    and "for_gevents (gvalue g1) sel gevents = (sel', True)"
  shows "g1 = g \<and> sel' = sel"
proof -
  from assms(1) obtain ge where p: "process_event M g (event inp) (mouse inp) = Inr (g1, ge)"
    and ge: "gevents = ge @ others inp"
    by (auto simp add: req_process_event_def split: sum.splits)
  from process_event_result [OF p] have "g1 = g"
  proof
    assume "g1 = g \<and> ge = []"
    then show ?thesis by simp
  next
    assume "\<exists>c. g1 = g\<lparr>gvalue := Some c\<rparr> \<and> ge = [GadgetEvent TYPE_GADGETUP (event inp) Wheel_gadget]"
    with assms(2) ge show ?thesis
      by (auto simp add: GadgetEvent_def)
  qed
  with assms(2) for_gevents_running show ?thesis by blast
qed

lemma event_loop_waiting:
  assumes "event_loop M g sel pre = Inr (g', sel', True)" and "rect g = (x, y, w, h)"
  shows "gvalue g' = gvalue g \<and> sel' = sel \<and> radius g' = radius g \<and> rect g' = rect g
         \<and> screenrect g' = (if pre = [] then screenrect g
                            else (x + fst (req_offset (last pre)), y + snd (req_offset (last pre)), w, h))"
  using assms
proof (induction pre arbitrary: g)
  case Nil
  then show ?case by simp
next
  case (Cons inp pre)
  from Cons.prems(1) obtain g1 gevents sel1 running
    where r: "req_process_event M g inp = Inr (g1, gevents)"
      and f: "for_gevents (gvalue g1) sel gevents = (sel1, running)"
    by (auto split: sum.splits prod.splits)
  from Cons.prems(1) r f have run: "running"
    by (auto simp add: Let_def split: if_splits)
  with loop_turn_running [OF r] f have eq: "g1 = g" "sel1 = sel" by auto
  from Cons.prems(1) r f run eq
  have l: "event_loop M (place g (req_offset inp)) sel pre = Inr (g', sel', True)"
    by (simp add: Let_def)
  have rp: "rect (place g (req_offset inp)) = (x, y, w, h)"
    using Cons.prems(2) by simp
  from Cons.IH [OF l rp] Cons.prems(2) show ?case
    by (simp add: screenrect_place)
qed

lemma event_loop_append:
  assumes "event_loop M g sel pre = Inr (g', sel', True)"
  shows "event_loop M g sel (pre @ rest) = event_loop M g' sel' rest"
  using assms
proof (induction pre arbitrary: g sel)
  case Nil
  then show ?case by simp
next
  case (Cons inp pre)
  from Cons.prems obtain g1 gevents sel1 running
    where r: "req_process_event M g inp = Inr (g1, gevents)"
      and f: "for_gevents (gvalue g1) sel gevents = (sel1, running)"
    by (auto split: sum.splits prod.splits)
  from Cons.prems r f have run: "running"
    by (auto simp add: Let_def split: if_splits)
  from Cons.prems r f run
  have l: "event_loop M (place g1 (req_offset inp)) sel1 pre = Inr (g', sel', True)"
    by (simp add: Let_def)
  from Cons.IH [OF l] r f run show ?case
    by (simp add: Let_def)
qed


text \<open>
  The session is its loop, started on the wheel as the session built, seeded and placed
  it, between the override of \<^verbatim>\<open>pixel_req_rect\<close> and its restoration.
\<close>

lemma colorwheel_req_loop:
  "\<exists>g0 cache1.
     gvalue g0 = initial_rgb \<and> radius g0 = 88 \<and> rect g0 = (8, 8 + fonty T, 176, 176)
     \<and> screenrect g0 = (8 + fst (first_offset T), 8 + fonty T + snd (first_offset T), 176, 176)
     \<and> (\<forall>inputs. colorwheel_req M T cache config initial_rgb inputs =
            (case event_loop M g0 None inputs of
               Inl e \<Rightarrow> Inl e
             | Inr (g, selected, running) \<Rightarrow>
                 if running
                 then Inr (None,
                        config\<lparr>pixel_req_rect :=
                          Some (get_screen_rect T ((get_width T - 192) div 2,
                                                   (get_height T - 216) div 2, 192, 216))\<rparr>,
                        cache1)
                 else Inr (Some selected, config, cache1)))"
proof -
  from ColorWheelGadget_Inr [of 88 M cache "(8, 8 + fonty T, 176, 176)"]
  obtain surf cache1 where c: "ColorWheelGadget M cache (8, 8 + fonty T, 176, 176) 88 =
      Inr (\<lparr>rect = (8, 8 + fonty T, 176, 176), radius = 88, wheel_surf = surf,
            need_redraw = True, visible = False, offsetx = 0, offsety = 0,
            screenrect = (8, 8 + fonty T, 176, 176), gvalue = None\<rparr>, cache1)"
    by auto
  let ?w = "\<lparr>rect = (8, 8 + fonty T, 176, 176), radius = 88, wheel_surf = surf,
            need_redraw = True, visible = False, offsetx = 0, offsety = 0,
            screenrect = (8, 8 + fonty T, 176, 176), gvalue = None\<rparr>"
  let ?g0 = "place (?w\<lparr>gvalue := initial_rgb\<rparr>) (first_offset T)"
  have seed: "(if initial_rgb \<noteq> None then ?w\<lparr>gvalue := initial_rgb\<rparr> else ?w) = ?w\<lparr>gvalue := initial_rgb\<rparr>"
    by (cases initial_rgb) simp_all
  have "colorwheel_req M T cache config initial_rgb inputs =
            (case event_loop M ?g0 None inputs of
               Inl e \<Rightarrow> Inl e
             | Inr (g, selected, running) \<Rightarrow>
                 if running
                 then Inr (None,
                        config\<lparr>pixel_req_rect :=
                          Some (get_screen_rect T ((get_width T - 192) div 2,
                                                   (get_height T - 216) div 2, 192, 216))\<rparr>,
                        cache1)
                 else Inr (Some selected, config, cache1))" for inputs
    unfolding colorwheel_req_def Let_def
    by (cases initial_rgb) (simp_all add: c split: sum.splits prod.splits)
  moreover have "gvalue ?g0 = initial_rgb" "radius ?g0 = 88" "rect ?g0 = (8, 8 + fonty T, 176, 176)"
    by simp_all
  moreover have "screenrect ?g0 =
      (8 + fst (first_offset T), 8 + fonty T + snd (first_offset T), 176, 176)"
    by (simp add: screenrect_place)
  ultimately show ?thesis by blast
qed

lemma loop_turn_silent:
  assumes "process_event M g (event inp) (mouse inp) = Inr (g, [])"
  shows "req_process_event M g inp = Inr (g, others inp)"
  using assms by (simp add: req_process_event_def)

lemma loop_turn_confirm:
  assumes "process_event M g (event inp) (mouse inp) = Inr (g, [])"
    and "others inp = GadgetEvent TYPE_GADGETUP e Ok_g # ges"
  shows "event_loop M g None (inp # rest) = Inr (place g (req_offset inp), gvalue g, False)"
  using assms by (cases "gvalue g") (simp_all add: loop_turn_silent GadgetEvent_def)

lemma loop_turn_cancel:
  assumes "process_event M g (event inp) (mouse inp) = Inr (g, [])"
    and "others inp = GadgetEvent TYPE_GADGETUP e Cancel_g # ges"
  shows "event_loop M g sel (inp # rest) = Inr (place g (req_offset inp), None, False)"
  using assms by (auto simp add: loop_turn_silent GadgetEvent_def)

lemma loop_turn_click:
  assumes "process_event M g (event inp) (mouse inp) =
             Inr (g\<lparr>gvalue := Some c\<rparr>, [GadgetEvent TYPE_GADGETUP (event inp) Wheel_gadget])"
  shows "event_loop M g sel (inp # rest) =
           Inr (place (g\<lparr>gvalue := Some c\<rparr>) (req_offset inp), Some c, False)"
  using assms by (simp add: req_process_event_def GadgetEvent_def)

text \<open>
  A session that still waits after the inputs \<^verbatim>\<open>pre\<close> goes on with the next input from
  a wheel that holds the initial colour and sits where the last redraw placed it.
\<close>

lemma session_waiting:
  assumes "colorwheel_req M T cache config initial_rgb pre = Inr (None, config', cache')"
  shows "\<exists>g. gvalue g = initial_rgb \<and> radius g = 88
           \<and> screenrect g =
               (8 + fst (if pre = [] then first_offset T else req_offset (last pre)),
                8 + fonty T + snd (if pre = [] then first_offset T else req_offset (last pre)),
                176, 176)
           \<and> (\<forall>rest. colorwheel_req M T cache config initial_rgb (pre @ rest) =
                 (case event_loop M g None rest of
                    Inl e \<Rightarrow> Inl e
                  | Inr (g', selected, running) \<Rightarrow>
                      if running then Inr (None, config', cache')
                      else Inr (Some selected, config, cache')))"
proof -
  from colorwheel_req_loop [of initial_rgb T M cache config]
  obtain g0 cache1 where g0: "gvalue g0 = initial_rgb" "radius g0 = 88"
      "rect g0 = (8, 8 + fonty T, 176, 176)"
      "screenrect g0 = (8 + fst (first_offset T), 8 + fonty T + snd (first_offset T), 176, 176)"
    and eq: "\<And>inputs. colorwheel_req M T cache config initial_rgb inputs =
            (case event_loop M g0 None inputs of
               Inl e \<Rightarrow> Inl e
             | Inr (g, selected, running) \<Rightarrow>
                 if running
                 then Inr (None,
                        config\<lparr>pixel_req_rect :=
                          Some (get_screen_rect T ((get_width T - 192) div 2,
                                                   (get_height T - 216) div 2, 192, 216))\<rparr>,
                        cache1)
                 else Inr (Some selected, config, cache1))"
    by blast
  from assms eq [of pre] obtain g sel where l: "event_loop M g0 None pre = Inr (g, sel, True)"
    and c: "config' = config\<lparr>pixel_req_rect :=
                          Some (get_screen_rect T ((get_width T - 192) div 2,
                                                   (get_height T - 216) div 2, 192, 216))\<rparr>"
           "cache' = cache1"
    by (auto split: sum.splits prod.splits if_splits)
  from event_loop_waiting [OF l g0(3)] g0
  have g: "gvalue g = initial_rgb" "sel = None" "radius g = 88"
    "screenrect g =
               (8 + fst (if pre = [] then first_offset T else req_offset (last pre)),
                8 + fonty T + snd (if pre = [] then first_offset T else req_offset (last pre)),
                176, 176)"
    by (simp_all split: if_splits)
  have "colorwheel_req M T cache config initial_rgb (pre @ rest) =
                 (case event_loop M g None rest of
                    Inl e \<Rightarrow> Inl e
                  | Inr (g', selected, running) \<Rightarrow>
                      if running then Inr (None, config', cache')
                      else Inr (Some selected, config, cache'))" for rest
    unfolding c using eq [of "pre @ rest"] event_loop_append [OF l, of rest] g(2) by simp
  with g show ?thesis by blast
qed


lemma session_opens:
  "\<exists>config' cache'. colorwheel_req M T cache config initial_rgb [] = Inr (None, config', cache')"
  using colorwheel_req_loop [of initial_rgb T M cache config] by auto

lemma session_confirm:
  assumes "colorwheel_req M T cache config initial_rgb pre = Inr (None, config', cache')"
    and "off = (if pre = [] then first_offset T else req_offset (last pre))"
    and "\<forall>g. radius g = 88 \<and> screenrect g = (8 + fst off, 8 + fonty T + snd off, 176, 176) \<longrightarrow>
           process_event M g (event inp) (mouse inp) = Inr (g, [])"
    and "others inp = GadgetEvent TYPE_GADGETUP e Ok_g # ges"
  shows "colorwheel_req M T cache config initial_rgb (pre @ inp # rest) =
           Inr (Some initial_rgb, config, cache')"
proof -
  from session_waiting [OF assms(1)] assms(2) obtain g where g: "gvalue g = initial_rgb"
    and l: "radius g = 88" "screenrect g = (8 + fst off, 8 + fonty T + snd off, 176, 176)"
    and eq: "\<And>rest. colorwheel_req M T cache config initial_rgb (pre @ rest) =
                 (case event_loop M g None rest of
                    Inl e \<Rightarrow> Inl e
                  | Inr (g', selected, running) \<Rightarrow>
                      if running then Inr (None, config', cache')
                      else Inr (Some selected, config, cache'))"
    by auto
  from assms(3) l have "process_event M g (event inp) (mouse inp) = Inr (g, [])"
    by blast
  from eq [of "inp # rest"] loop_turn_confirm [OF this assms(4), of rest] g
  show ?thesis by simp
qed

lemma session_cancel:
  assumes "colorwheel_req M T cache config initial_rgb pre = Inr (None, config', cache')"
    and "off = (if pre = [] then first_offset T else req_offset (last pre))"
    and "\<forall>g. radius g = 88 \<and> screenrect g = (8 + fst off, 8 + fonty T + snd off, 176, 176) \<longrightarrow>
           process_event M g (event inp) (mouse inp) = Inr (g, [])"
    and "others inp = GadgetEvent TYPE_GADGETUP e Cancel_g # ges"
  shows "colorwheel_req M T cache config initial_rgb (pre @ inp # rest) =
           Inr (Some None, config, cache')"
proof -
  from session_waiting [OF assms(1)] assms(2) obtain g
    where l: "radius g = 88" "screenrect g = (8 + fst off, 8 + fonty T + snd off, 176, 176)"
    and eq: "\<And>rest. colorwheel_req M T cache config initial_rgb (pre @ rest) =
                 (case event_loop M g None rest of
                    Inl e \<Rightarrow> Inl e
                  | Inr (g', selected, running) \<Rightarrow>
                      if running then Inr (None, config', cache')
                      else Inr (Some selected, config, cache'))"
    by auto
  from assms(3) l have "process_event M g (event inp) (mouse inp) = Inr (g, [])"
    by blast
  from eq [of "inp # rest"] loop_turn_cancel [OF this assms(4), of None rest]
  show ?thesis by simp
qed

lemma session_click:
  assumes "colorwheel_req M T cache config initial_rgb pre = Inr (None, config', cache')"
    and "off = (if pre = [] then first_offset T else req_offset (last pre))"
    and "etype (event inp) = MOUSEBUTTONDOWN" and "button (event inp) = 1"
    and "mouse inp = (mx, my)"
    and "pointin (mx, my) (8 + fst off, 8 + fonty T + snd off, 176, 176)"
    and "dx = mx - (8 + fst off + 88)" and "dy = my - (8 + fonty T + snd off + 88)"
    and "\<not> hypot M dx dy > 88"
  shows "colorwheel_req M T cache config initial_rgb (pre @ inp # rest) =
             Inr (Some (Some (spec_color M 88 dx dy)), config, cache')"
proof -
  let ?c = "spec_color M 88 dx dy"
  from session_waiting [OF assms(1)] assms(2) obtain g where g: "radius g = 88"
      "screenrect g = (8 + fst off, 8 + fonty T + snd off, 176, 176)"
    and eq: "\<And>rest. colorwheel_req M T cache config initial_rgb (pre @ rest) =
                 (case event_loop M g None rest of
                    Inl e \<Rightarrow> Inl e
                  | Inr (g', selected, running) \<Rightarrow>
                      if running then Inr (None, config', cache')
                      else Inr (Some selected, config, cache'))"
    by auto
  have p: "process_event M g (event inp) (mouse inp) =
              Inr (g\<lparr>gvalue := Some ?c\<rparr>, [GadgetEvent TYPE_GADGETUP (event inp) Wheel_gadget])"
    using process_event_click [of "event inp" mx my g "8 + fst off" "8 + fonty T + snd off" 176 176 M]
      g assms(3-9)
    by simp
  from eq [of "inp # rest"] loop_turn_click [OF p, of None rest]
  show ?thesis by simp
qed

text \<open>
  C1, as the code has it. In a session opened with no initial colour that still waits
  after the inputs \<^verbatim>\<open>pre\<close> (so no wheel click has occurred: a click ends the session),
  activating the confirm control ends the session: the call returns \<^verbatim>\<open>None\<close>, no colour is
  committed, and \<^verbatim>\<open>pixel_req_rect\<close> is back. Activating a control is an input that the
  wheel, where the last redraw at offset \<^verbatim>\<open>off\<close> placed it, lets pass without a
  notification, and for which the control's notification comes first.
\<close>

theorem confirm_without_selection_returns_none:
  assumes "colorwheel_req M T cache config None pre = Inr (None, config', cache')"
    and "off = (if pre = [] then first_offset T else req_offset (last pre))"
    and "\<forall>g. radius g = 88 \<and> screenrect g = (8 + fst off, 8 + fonty T + snd off, 176, 176) \<longrightarrow>
           process_event M g (event inp) (mouse inp) = Inr (g, [])"
    and "others inp = GadgetEvent TYPE_GADGETUP e Ok_g # ges"
  shows "colorwheel_req M T cache config None (pre @ inp # rest) =
           Inr (Some None, config, cache')"
proof -
  from session_waiting [OF assms(1)] assms(2) obtain g where g: "gvalue g = None"
    and l: "radius g = 88" "screenrect g = (8 + fst off, 8 + fonty T + snd off, 176, 176)"
    and eq: "\<And>rest. colorwheel_req M T cache config None (pre @ rest) =
                 (case event_loop M g None rest of
                    Inl e \<Rightarrow> Inl e
                  | Inr (g', selected, running) \<Rightarrow>
                      if running then Inr (None, config', cache')
                      else Inr (Some selected, config, cache'))"
    by auto
  from assms(3) l have silent: "process_event M g (event inp) (mouse inp) = Inr (g, [])"
    by blast
  from eq [of "inp # rest"] loop_turn_confirm [OF silent assms(4), of rest] g
  show ?thesis by simp
qed

theorem confirm_without_selection_returns_none_witness:
  "case colorwheel_req exact
          \<lparr>get_width = 640, get_height = 480, fonty = 20, get_screen_rect = (\<lambda>r. r), first_offset = (224, 132)\<rparr>
          Map.empty \<lparr>pixel_req_rect = None\<rparr> None
          [\<lparr>event = \<lparr>etype = MOUSEBUTTONUP, button = 1\<rparr>, mouse = (272, 350), others = [GadgetEvent TYPE_GADGETUP \<lparr>etype = MOUSEBUTTONUP, button = 1\<rparr> Ok_g], req_offset = (224, 132)\<rparr>] of
     Inl e \<Rightarrow> False
   | Inr (returned, config', cache') \<Rightarrow> returned = Some None \<and> config' = \<lparr>pixel_req_rect = None\<rparr>"
proof -
  let ?T = "\<lparr>get_width = 640, get_height = 480, fonty = 20, get_screen_rect = (\<lambda>r. r), first_offset = (224, 132)\<rparr>"
  let ?inp = "\<lparr>event = \<lparr>etype = MOUSEBUTTONUP, button = 1\<rparr>, mouse = (272, 350), others = [GadgetEvent TYPE_GADGETUP \<lparr>etype = MOUSEBUTTONUP, button = 1\<rparr> Ok_g], req_offset = (224, 132)\<rparr>"
  obtain config' cache' where
    w: "colorwheel_req exact ?T Map.empty \<lparr>pixel_req_rect = None\<rparr> None [] = Inr (None, config', cache')"
    using session_opens by blast
  from confirm_without_selection_returns_none [OF w refl, where inp = ?inp and e = "\<lparr>etype = MOUSEBUTTONUP, button = 1\<rparr>" and ges = "[]" and rest = "[]"]
  show ?thesis by (simp add: process_event_not_down)
qed

text \<open>
  C1 as stated fails: a session opened with no initial colour, whose first input is the
  release of the mouse button on OK, has returned \<^verbatim>\<open>None\<close>; it is not left waiting.
\<close>

theorem confirm_without_click_counterexample:
  "case colorwheel_req exact
          \<lparr>get_width = 640, get_height = 480, fonty = 20, get_screen_rect = (\<lambda>r. r), first_offset = (224, 132)\<rparr>
          Map.empty \<lparr>pixel_req_rect = None\<rparr> None
          [\<lparr>event = \<lparr>etype = MOUSEBUTTONUP, button = 1\<rparr>, mouse = (272, 350), others = [GadgetEvent TYPE_GADGETUP \<lparr>etype = MOUSEBUTTONUP, button = 1\<rparr> Ok_g], req_offset = (224, 132)\<rparr>] of
     Inl e \<Rightarrow> False
   | Inr (returned, config', cache') \<Rightarrow> returned = Some None"
proof -
  let ?T = "\<lparr>get_width = 640, get_height = 480, fonty = 20, get_screen_rect = (\<lambda>r. r), first_offset = (224, 132)\<rparr>"
  let ?inp = "\<lparr>event = \<lparr>etype = MOUSEBUTTONUP, button = 1\<rparr>, mouse = (272, 350), others = [GadgetEvent TYPE_GADGETUP \<lparr>etype = MOUSEBUTTONUP, button = 1\<rparr> Ok_g], req_offset = (224, 132)\<rparr>"
  obtain g0 cache1 where gv: "gvalue g0 = None"
    and eq: "\<And>inputs. colorwheel_req exact ?T Map.empty \<lparr>pixel_req_rect = None\<rparr> None inputs =
            (case event_loop exact g0 None inputs of
               Inl e \<Rightarrow> Inl e
             | Inr (g, selected, running) \<Rightarrow>
                 if running
                 then Inr (None,
                        \<lparr>pixel_req_rect = None\<rparr>\<lparr>pixel_req_rect :=
                          Some (get_screen_rect ?T ((get_width ?T - 192) div 2,
                                                   (get_height ?T - 216) div 2, 192, 216))\<rparr>,
                        cache1)
                 else Inr (Some selected, \<lparr>pixel_req_rect = None\<rparr>, cache1))"
    using colorwheel_req_loop [of None ?T exact Map.empty "\<lparr>pixel_req_rect = None\<rparr>"] by blast
  have "event_loop exact g0 None [?inp] = Inr (place g0 (req_offset ?inp), None, False)"
    by (simp add: req_process_event_def process_event_not_down GadgetEvent_def gv)
  with eq [of "[?inp]"] show ?thesis by simp
qed


text \<open>
  C7. A session opened with an initial colour seeds the wheel's value with it: while the
  session waits, with no wheel click in between, activating the confirm control ends it
  and the call returns the initial colour. Activating the control is an input that the
  wheel lets pass without a notification and for which OK's notification comes first.
\<close>

theorem confirm_returns_initial_color:
  assumes "colorwheel_req M T cache config (Some c) pre = Inr (None, config', cache')"
    and "off = (if pre = [] then first_offset T else req_offset (last pre))"
    and "\<forall>g. radius g = 88 \<and> screenrect g = (8 + fst off, 8 + fonty T + snd off, 176, 176) \<longrightarrow>
           process_event M g (event inp) (mouse inp) = Inr (g, [])"
    and "others inp = GadgetEvent TYPE_GADGETUP e Ok_g # ges"
  shows "colorwheel_req M T cache config (Some c) (pre @ inp # rest) =
           Inr (Some (Some c), config, cache')"
proof -
  from session_waiting [OF assms(1)] assms(2) obtain g where g: "gvalue g = (Some c)"
    and l: "radius g = 88" "screenrect g = (8 + fst off, 8 + fonty T + snd off, 176, 176)"
    and eq: "\<And>rest. colorwheel_req M T cache config (Some c) (pre @ rest) =
                 (case event_loop M g None rest of
                    Inl e \<Rightarrow> Inl e
                  | Inr (g', selected, running) \<Rightarrow>
                      if running then Inr (None, config', cache')
                      else Inr (Some selected, config, cache'))"
    by auto
  from assms(3) l have silent: "process_event M g (event inp) (mouse inp) = Inr (g, [])"
    by blast
  from eq [of "inp # rest"] loop_turn_confirm [OF silent assms(4), of rest] g
  show ?thesis by simp
qed

theorem confirm_returns_initial_color_witness:
  "case colorwheel_req exact
          \<lparr>get_width = 640, get_height = 480, fonty = 20, get_screen_rect = (\<lambda>r. r), first_offset = (224, 132)\<rparr>
          Map.empty \<lparr>pixel_req_rect = None\<rparr> (Some (12, 34, 56))
          [\<lparr>event = \<lparr>etype = MOUSEBUTTONUP, button = 1\<rparr>, mouse = (272, 350), others = [GadgetEvent TYPE_GADGETUP \<lparr>etype = MOUSEBUTTONUP, button = 1\<rparr> Ok_g], req_offset = (224, 132)\<rparr>] of
     Inl e \<Rightarrow> False
   | Inr (returned, config', cache') \<Rightarrow> returned = Some (Some (12, 34, 56))"
proof -
  let ?T = "\<lparr>get_width = 640, get_height = 480, fonty = 20, get_screen_rect = (\<lambda>r. r), first_offset = (224, 132)\<rparr>"
  let ?inp = "\<lparr>event = \<lparr>etype = MOUSEBUTTONUP, button = 1\<rparr>, mouse = (272, 350), others = [GadgetEvent TYPE_GADGETUP \<lparr>etype = MOUSEBUTTONUP, button = 1\<rparr> Ok_g], req_offset = (224, 132)\<rparr>"
  obtain config' cache' where
    w: "colorwheel_req exact ?T Map.empty \<lparr>pixel_req_rect = None\<rparr> (Some (12, 34, 56)) [] = Inr (None, config', cache')"
    using session_opens by blast
  from confirm_returns_initial_color [OF w refl, where inp = ?inp and e = "\<lparr>etype = MOUSEBUTTONUP, button = 1\<rparr>" and ges = "[]" and rest = "[]"]
  show ?thesis by (simp add: process_event_not_down)
qed

text \<open>
  C8. In every session that still waits, whatever colour the wheel holds, activating the
  cancel control ends the session and the call returns \<^verbatim>\<open>None\<close>: no colour is returned.
  Activating the control is an input that the wheel lets pass without a notification and
  for which Cancel's notification comes first.
\<close>

theorem cancel_returns_none:
  assumes "colorwheel_req M T cache config initial_rgb pre = Inr (None, config', cache')"
    and "off = (if pre = [] then first_offset T else req_offset (last pre))"
    and "\<forall>g. radius g = 88 \<and> screenrect g = (8 + fst off, 8 + fonty T + snd off, 176, 176) \<longrightarrow>
           process_event M g (event inp) (mouse inp) = Inr (g, [])"
    and "others inp = GadgetEvent TYPE_GADGETUP e Cancel_g # ges"
  shows "colorwheel_req M T cache config initial_rgb (pre @ inp # rest) =
           Inr (Some None, config, cache')"
proof -
  from session_waiting [OF assms(1)] assms(2) obtain g
    where l: "radius g = 88" "screenrect g = (8 + fst off, 8 + fonty T + snd off, 176, 176)"
    and eq: "\<And>rest. colorwheel_req M T cache config initial_rgb (pre @ rest) =
                 (case event_loop M g None rest of
                    Inl e \<Rightarrow> Inl e
                  | Inr (g', selected, running) \<Rightarrow>
                      if running then Inr (None, config', cache')
                      else Inr (Some selected, config, cache'))"
    by auto
  from assms(3) l have silent: "process_event M g (event inp) (mouse inp) = Inr (g, [])"
    by blast
  from eq [of "inp # rest"] loop_turn_cancel [OF silent assms(4), of None rest]
  show ?thesis by simp
qed

theorem cancel_returns_none_witness:
  "case colorwheel_req exact
          \<lparr>get_width = 640, get_height = 480, fonty = 20, get_screen_rect = (\<lambda>r. r), first_offset = (224, 132)\<rparr>
          Map.empty \<lparr>pixel_req_rect = None\<rparr> (Some (12, 34, 56))
          [\<lparr>event = \<lparr>etype = MOUSEBUTTONUP, button = 1\<rparr>, mouse = (368, 350), others = [GadgetEvent TYPE_GADGETUP \<lparr>etype = MOUSEBUTTONUP, button = 1\<rparr> Cancel_g], req_offset = (224, 132)\<rparr>] of
     Inl e \<Rightarrow> False
   | Inr (returned, config', cache') \<Rightarrow> returned = Some None"
proof -
  let ?T = "\<lparr>get_width = 640, get_height = 480, fonty = 20, get_screen_rect = (\<lambda>r. r), first_offset = (224, 132)\<rparr>"
  let ?inp = "\<lparr>event = \<lparr>etype = MOUSEBUTTONUP, button = 1\<rparr>, mouse = (368, 350), others = [GadgetEvent TYPE_GADGETUP \<lparr>etype = MOUSEBUTTONUP, button = 1\<rparr> Cancel_g], req_offset = (224, 132)\<rparr>"
  obtain config' cache' where
    w: "colorwheel_req exact ?T Map.empty \<lparr>pixel_req_rect = None\<rparr> (Some (12, 34, 56)) [] = Inr (None, config', cache')"
    using session_opens by blast
  from cancel_returns_none [OF w refl, where inp = ?inp and e = "\<lparr>etype = MOUSEBUTTONUP, button = 1\<rparr>" and ges = "[]" and rest = "[]"]
  show ?thesis by (simp add: process_event_not_down)
qed

text \<open>
  C5. In a session that still waits, the wheel sits at the offset \<^verbatim>\<open>off\<close> of the last
  redraw. A primary-button pointer-down inside the wheel's rectangle and within the
  radius of its centre makes the widget store the colour that the specification's HSV
  formula, the renderer's, gives the position and emit one notification, and the session
  ends at once: the call returns that colour.
\<close>

theorem wheel_click_commits:
  assumes "colorwheel_req M T cache config initial_rgb pre = Inr (None, config', cache')"
    and "off = (if pre = [] then first_offset T else req_offset (last pre))"
    and "etype (event inp) = MOUSEBUTTONDOWN" and "button (event inp) = 1"
    and "mouse inp = (mx, my)"
    and "pointin (mx, my) (8 + fst off, 8 + fonty T + snd off, 176, 176)"
    and "dx = mx - (8 + fst off + 88)" and "dy = my - (8 + fonty T + snd off + 88)"
    and "\<not> hypot M dx dy > 88"
  shows "(\<forall>g. radius g = 88 \<and> screenrect g = (8 + fst off, 8 + fonty T + snd off, 176, 176) \<longrightarrow>
            process_event M g (event inp) (mouse inp) =
              Inr (g\<lparr>gvalue := Some (spec_color M 88 dx dy)\<rparr>,
                   [GadgetEvent TYPE_GADGETUP (event inp) Wheel_gadget]))
         \<and> colorwheel_req M T cache config initial_rgb (pre @ inp # rest) =
             Inr (Some (Some (spec_color M 88 dx dy)), config, cache')"
proof -
  let ?c = "spec_color M 88 dx dy"
  have "process_event M g (event inp) (mouse inp) =
              Inr (g\<lparr>gvalue := Some ?c\<rparr>, [GadgetEvent TYPE_GADGETUP (event inp) Wheel_gadget])"
    if "radius g = 88" and "screenrect g = (8 + fst off, 8 + fonty T + snd off, 176, 176)" for g
    using process_event_click [of "event inp" mx my g "8 + fst off" "8 + fonty T + snd off" 176 176 M]
      that assms(3-9)
    by simp
  with session_click [OF assms, of rest] show ?thesis by blast
qed

theorem wheel_click_commits_witness:
  "case colorwheel_req exact
          \<lparr>get_width = 640, get_height = 480, fonty = 20, get_screen_rect = (\<lambda>r. r), first_offset = (224, 132)\<rparr>
          Map.empty \<lparr>pixel_req_rect = None\<rparr> None
          [\<lparr>event = \<lparr>etype = MOUSEBUTTONDOWN, button = 1\<rparr>, mouse = (232, 248), others = [], req_offset = (224, 132)\<rparr>] of
     Inl e \<Rightarrow> False
   | Inr (returned, config', cache') \<Rightarrow> returned = Some (Some (0, 255, 255))"
proof -
  let ?T = "\<lparr>get_width = 640, get_height = 480, fonty = 20, get_screen_rect = (\<lambda>r. r), first_offset = (224, 132)\<rparr>"
  let ?inp = "\<lparr>event = \<lparr>etype = MOUSEBUTTONDOWN, button = 1\<rparr>, mouse = (232, 248), others = [], req_offset = (224, 132)\<rparr>"
  obtain config' cache' where
    w: "colorwheel_req exact ?T Map.empty \<lparr>pixel_req_rect = None\<rparr> None [] = Inr (None, config', cache')"
    using session_opens by blast
  from wheel_click_commits [OF w refl, where inp = ?inp and mx = 232 and my = 248 and rest = "[]",
      OF _ _ _ _ refl refl]
  show ?thesis by (simp add: pointin_def sqrt_7744 spec_color_west)
qed

text \<open>
  C9. While the session waits, \<^verbatim>\<open>pixel_req_rect\<close> holds the requestor's screen rectangle;
  whenever the call has returned, by a wheel click, by the confirm control or by the
  cancel control, the configuration is what it was before the call.
\<close>

theorem pixel_req_rect_restored:
  assumes "colorwheel_req M T cache config initial_rgb inputs = Inr (returned, config', cache')"
  shows "(returned = None \<longrightarrow>
            config' = config\<lparr>pixel_req_rect :=
                        Some (get_screen_rect T ((get_width T - 192) div 2,
                                                 (get_height T - 216) div 2, 192, 216))\<rparr>)
         \<and> (returned \<noteq> None \<longrightarrow> config' = config)"
proof -
  from colorwheel_req_loop [of initial_rgb T M cache config]
  obtain g0 cache1 where
    eq: "colorwheel_req M T cache config initial_rgb inputs =
            (case event_loop M g0 None inputs of
               Inl e \<Rightarrow> Inl e
             | Inr (g, selected, running) \<Rightarrow>
                 if running
                 then Inr (None,
                        config\<lparr>pixel_req_rect :=
                          Some (get_screen_rect T ((get_width T - 192) div 2,
                                                   (get_height T - 216) div 2, 192, 216))\<rparr>,
                        cache1)
                 else Inr (Some selected, config, cache1))"
    by blast
  show ?thesis
  proof (cases "event_loop M g0 None inputs")
    case (Inl e)
    with eq assms show ?thesis by simp
  next
    case (Inr res)
    obtain g selected running where "res = (g, selected, running)"
      by (cases res)
    with Inr eq assms show ?thesis
      by (cases running) auto
  qed
qed


theorem pixel_req_rect_restored_witness:
  "(case colorwheel_req exact \<lparr>get_width = 640, get_height = 480, fonty = 20, get_screen_rect = (\<lambda>r. r), first_offset = (224, 132)\<rparr> Map.empty \<lparr>pixel_req_rect = Some (1, 2, 3, 4)\<rparr> None [] of
      Inl e \<Rightarrow> False
    | Inr (returned, config', cache') \<Rightarrow>
        returned = None \<and> config' = \<lparr>pixel_req_rect = Some (224, 132, 192, 216)\<rparr>)
   \<and> (case colorwheel_req exact \<lparr>get_width = 640, get_height = 480, fonty = 20, get_screen_rect = (\<lambda>r. r), first_offset = (224, 132)\<rparr> Map.empty \<lparr>pixel_req_rect = Some (1, 2, 3, 4)\<rparr> None
              [\<lparr>event = \<lparr>etype = MOUSEBUTTONDOWN, button = 1\<rparr>, mouse = (232, 248), others = [], req_offset = (224, 132)\<rparr>] of
         Inl e \<Rightarrow> False
       | Inr (returned, config', cache') \<Rightarrow>
           returned = Some (Some (0, 255, 255)) \<and> config' = \<lparr>pixel_req_rect = Some (1, 2, 3, 4)\<rparr>)
   \<and> (case colorwheel_req exact \<lparr>get_width = 640, get_height = 480, fonty = 20, get_screen_rect = (\<lambda>r. r), first_offset = (224, 132)\<rparr> Map.empty \<lparr>pixel_req_rect = Some (1, 2, 3, 4)\<rparr> (Some (12, 34, 56))
              [\<lparr>event = \<lparr>etype = MOUSEBUTTONUP, button = 1\<rparr>, mouse = (272, 350), others = [GadgetEvent TYPE_GADGETUP \<lparr>etype = MOUSEBUTTONUP, button = 1\<rparr> Ok_g], req_offset = (224, 132)\<rparr>] of
         Inl e \<Rightarrow> False
       | Inr (returned, config', cache') \<Rightarrow>
           returned = Some (Some (12, 34, 56)) \<and> config' = \<lparr>pixel_req_rect = Some (1, 2, 3, 4)\<rparr>)
   \<and> (case colorwheel_req exact \<lparr>get_width = 640, get_height = 480, fonty = 20, get_screen_rect = (\<lambda>r. r), first_offset = (224, 132)\<rparr> Map.empty \<lparr>pixel_req_rect = Some (1, 2, 3, 4)\<rparr> (Some (12, 34, 56))
              [\<lparr>event = \<lparr>etype = MOUSEBUTTONUP, button = 1\<rparr>, mouse = (368, 350), others = [GadgetEvent TYPE_GADGETUP \<lparr>etype = MOUSEBUTTONUP, button = 1\<rparr> Cancel_g], req_offset = (224, 132)\<rparr>] of
         Inl e \<Rightarrow> False
       | Inr (returned, config', cache') \<Rightarrow> returned = Some None \<and> config' = \<lparr>pixel_req_rect = Some (1, 2, 3, 4)\<rparr>)"
proof -
  let ?T = "\<lparr>get_width = 640, get_height = 480, fonty = 20, get_screen_rect = (\<lambda>r. r), first_offset = (224, 132)\<rparr>"
  let ?cfg = "\<lparr>pixel_req_rect = Some (1, 2, 3, 4)\<rparr>"
  obtain c0 k0 where
    w0: "colorwheel_req exact ?T Map.empty ?cfg None [] = Inr (None, c0, k0)"
    using session_opens by blast
  obtain c1 k1 where
    w1: "colorwheel_req exact ?T Map.empty ?cfg (Some (12, 34, 56)) [] = Inr (None, c1, k1)"
    using session_opens by blast
  obtain r2 c2 k2 where
    click: "colorwheel_req exact ?T Map.empty ?cfg None [\<lparr>event = \<lparr>etype = MOUSEBUTTONDOWN, button = 1\<rparr>, mouse = (232, 248), others = [], req_offset = (224, 132)\<rparr>] = Inr (r2, c2, k2)"
    and r2: "r2 = Some (Some (0, 255, 255))"
    using session_click [OF w0 refl, where inp = "\<lparr>event = \<lparr>etype = MOUSEBUTTONDOWN, button = 1\<rparr>, mouse = (232, 248), others = [], req_offset = (224, 132)\<rparr>" and mx = 232 and my = 248 and rest = "[]",
      OF _ _ _ _ refl refl]
    by (simp add: pointin_def sqrt_7744 spec_color_west)
  obtain r3 c3 k3 where
    ok: "colorwheel_req exact ?T Map.empty ?cfg (Some (12, 34, 56)) [\<lparr>event = \<lparr>etype = MOUSEBUTTONUP, button = 1\<rparr>, mouse = (272, 350), others = [GadgetEvent TYPE_GADGETUP \<lparr>etype = MOUSEBUTTONUP, button = 1\<rparr> Ok_g], req_offset = (224, 132)\<rparr>] = Inr (r3, c3, k3)"
    and r3: "r3 = Some (Some (12, 34, 56))"
    using session_confirm [OF w1 refl, where inp = "\<lparr>event = \<lparr>etype = MOUSEBUTTONUP, button = 1\<rparr>, mouse = (272, 350), others = [GadgetEvent TYPE_GADGETUP \<lparr>etype = MOUSEBUTTONUP, button = 1\<rparr> Ok_g], req_offset = (224, 132)\<rparr>" and e = "\<lparr>etype = MOUSEBUTTONUP, button = 1\<rparr>" and ges = "[]" and rest = "[]"]
    by (simp add: process_event_not_down)
  obtain r4 c4 k4 where
    cancel: "colorwheel_req exact ?T Map.empty ?cfg (Some (12, 34, 56)) [\<lparr>event = \<lparr>etype = MOUSEBUTTONUP, button = 1\<rparr>, mouse = (368, 350), others = [GadgetEvent TYPE_GADGETUP \<lparr>etype = MOUSEBUTTONUP, button = 1\<rparr> Cancel_g], req_offset = (224, 132)\<rparr>] = Inr (r4, c4, k4)"
    and r4: "r4 = Some None"
    using session_cancel [OF w1 refl, where inp = "\<lparr>event = \<lparr>etype = MOUSEBUTTONUP, button = 1\<rparr>, mouse = (368, 350), others = [GadgetEvent TYPE_GADGETUP \<lparr>etype = MOUSEBUTTONUP, button = 1\<rparr> Cancel_g], req_offset = (224, 132)\<rparr>" and e = "\<lparr>etype = MOUSEBUTTONUP, button = 1\<rparr>" and ges = "[]" and rest = "[]"]
    by (simp add: process_event_not_down)
  from pixel_req_rect_restored [OF w0] pixel_req_rect_restored [OF click]
    pixel_req_rect_restored [OF ok] pixel_req_rect_restored [OF cancel]
    w0 click ok cancel r2 r3 r4
  show ?thesis by simp
qed


end
